theory Spec2Isabelle
  imports Complex_Main
begin

section \<open>JavaScript values\<close>

text \<open>
  Payloads of the provider reach the program as the result of \<open>JSON.parse\<close> or
  \<open>response.json()\<close>. An object is the list of its own properties (keys distinct, as
  the parser leaves them). The value \<open>undefined\<close> is not JSON: a JavaScript value is a
  \<open>json option\<close>, with \<open>None\<close> for \<open>undefined\<close>.
\<close>

datatype json =
    JNull
  | JBool bool
  | JNum rat
  | JStr string
  | JArr "json list"
  | JObj "(string \<times> json) list"

type_synonym jsval = "json option"

datatype js_error =
    SyntaxError
  | TypeError
  | FetchError
  | InvalidPublicKey
  | RpcError
  | ParserError

text \<open>Truthiness, as \<open>!x\<close>, \<open>x || y\<close> and \<open>if (x)\<close> read it.\<close>

fun truthy :: "jsval \<Rightarrow> bool" where
  "truthy None = False"
| "truthy (Some JNull) = False"
| "truthy (Some (JBool b)) = b"
| "truthy (Some (JNum n)) = (n \<noteq> 0)"
| "truthy (Some (JStr s)) = (s \<noteq> [])"
| "truthy (Some (JArr xs)) = True"
| "truthy (Some (JObj kvs)) = True"

text \<open>
  Member access \<open>x.k\<close>: a TypeError on \<open>undefined\<close> and \<open>null\<close>, the own property on
  an object, \<open>undefined\<close> on every other value (none of the property names the program
  reads this way is inherited from a prototype). Optional chaining \<open>x?.k\<close> gives
  \<open>undefined\<close> where \<open>x.k\<close> throws.
\<close>

fun member :: "jsval \<Rightarrow> string \<Rightarrow> js_error + jsval" where
  "member None k = Inl TypeError"
| "member (Some JNull) k = Inl TypeError"
| "member (Some (JObj kvs)) k = Inr (map_of kvs k)"
| "member (Some v) k = Inr None"

fun opt_member :: "jsval \<Rightarrow> string \<Rightarrow> jsval" where
  "opt_member None k = None"
| "opt_member (Some JNull) k = None"
| "opt_member (Some (JObj kvs)) k = map_of kvs k"
| "opt_member (Some v) k = None"

definition bindE :: "js_error + 'a \<Rightarrow> ('a \<Rightarrow> js_error + 'b) \<Rightarrow> js_error + 'b" where
  "bindE r f = (case r of Inl e \<Rightarrow> Inl e | Inr x \<Rightarrow> f x)"

section \<open>Observable actions\<close>

text \<open>
  What a run of the program does to the outside: console lines, spinner updates, requests
  to the provider, timers, and the exit of the process. Lines are kept structured: the
  constructor names the message the source prints, the arguments are the values it
  interpolates.
\<close>

datatype variant = V1 | V2

text \<open>
  The object the first variant hands to \<open>createTransactionCard\<close>, and the content of the
  box the second variant prints. Numbers stay numbers: \<open>toFixed\<close>, \<open>toLocaleString\<close>,
  colours and borders are layout.
\<close>

datatype formatted =
    WithSuffix rat string
  | Exponential rat
  | FixedFive rat
  | NotAvailable

record tokenData =
  image :: string
  name :: json
  tokenMint :: string
  tokenAmount :: json
  tokenPrice :: json

record transactionData =
  txType :: string
  inputTokenData :: tokenData
  outputTokenData :: tokenData
  status :: string
  feeSol :: rat
  timestampMs :: int
  cardSignature :: json

datatype detail_line =
    TradeLine json string
  | InputTokenHeader
  | OutputTokenHeader
  | NoTokenInformation
  | NoAdditionalTokenDetails
  | NameDetail json
  | SymbolDetail json
  | MintDetail json
  | ImageDetail json
  | SupplyDetail formatted
  | DecimalsDetail json
  | AmountLine formatted json
  | BlankLine
  | FeeLine formatted string
  | EmptyLine

record transactionBox =
  boxType :: string
  boxSignature :: json
  boxTimestampMs :: int
  boxFailed :: bool
  boxFeeSol :: rat
  transactionDetails :: "detail_line list"

datatype rpc_call =
    GetSignaturesForAddress string int
  | GetParsedTransaction json
  | GetAsset string

datatype http_result = NetworkError | BodyNotJson | JsonBody json

datatype console_line =
    InvalidSignatureReceived jsval
  | ErrorFetchingRecentSignatures js_error
  | NewTransactionDetected jsval
  | AccountUpdated jsval
  | WebSocketMessageProcessingError js_error
  | WebSocketErrorLine
  | WebSocketConnected
  | WebSocketDisconnected
  | ErrorFetchingAssetInfo string js_error
  | ErrorDownloadingImage json
  | MissingApiKeyBox
  | ThrownError js_error
  | TransactionCard transactionData
  | TransactionBox transactionBox

datatype spinner_line =
    ParsingTransaction
  | TransactionNotFound json
  | SkippingLowValueTransaction json
  | TransactionParsedSuccessfully
  | ErrorParsingTransaction json
  | FetchingTransactions
  | NoTransactionsFound
  | FetchedTransactions jsval
  | ErrorFetchingTransactions

datatype effect =
    ConsoleLog console_line
  | ConsoleError console_line
  | SpinnerStart spinner_line
  | SpinnerFail spinner_line
  | SpinnerInfo spinner_line
  | SpinnerSucceed spinner_line
  | HttpPost rpc_call
  | DexParseTrades
  | NewConnection string
  | NewWebSocket string
  | WsSendAccountSubscribe string
  | SetInterval nat
  | SetTimeout nat
  | ProcessExit int

section \<open>Signature fetcher\<close>

definition await_json :: "http_result \<Rightarrow> js_error + json" where
  "await_json r =
     (case r of NetworkError \<Rightarrow> Inl FetchError
      | BodyNotJson \<Rightarrow> Inl SyntaxError
      | JsonBody b \<Rightarrow> Inr b)"

text \<open>\<open>result.map((tx) => tx.signature)\<close>: only an array has \<open>map\<close>.\<close>

fun map_signature :: "json list \<Rightarrow> js_error + jsval list" where
  "map_signature [] = Inr []"
| "map_signature (tx # txs) =
     (case member (Some tx) ''signature'' of
        Inl e \<Rightarrow> Inl e
      | Inr s \<Rightarrow> (case map_signature txs of Inl e \<Rightarrow> Inl e | Inr ss \<Rightarrow> Inr (s # ss)))"

fun result_map_signature :: "jsval \<Rightarrow> js_error + jsval list" where
  "result_map_signature (Some (JArr txs)) = map_signature txs"
| "result_map_signature v = Inl TypeError"

text \<open>
  \<open>fetchRecentTransactionSignatures(wallet)\<close>. The request carries the constant limit 1.
  \<open>new PublicKey(wallet)\<close> is evaluated while the request body is built, inside the
  \<open>try\<close>; whether it accepts the wallet is a parameter. The provider's answer to the
  request is the parameter \<open>resp\<close>.
\<close>

definition fetchRecentTransactionSignatures ::
  "(string \<Rightarrow> bool) \<Rightarrow> string \<Rightarrow> http_result \<Rightarrow> jsval list \<times> effect list" where
  "fetchRecentTransactionSignatures publicKeyOk wallet resp =
     (if \<not> publicKeyOk wallet
      then ([], [ConsoleError (ErrorFetchingRecentSignatures InvalidPublicKey)])
      else
        (case bindE (await_json resp)
                (\<lambda>body. bindE (member (Some body) ''result'') result_map_signature) of
           Inl e \<Rightarrow>
             ([], [HttpPost (GetSignaturesForAddress wallet 1),
                   ConsoleError (ErrorFetchingRecentSignatures e)])
         | Inr sigs \<Rightarrow> (sigs, [HttpPost (GetSignaturesForAddress wallet 1)])))"

section \<open>Subscription loop: the message handler\<close>

text \<open>
  What a handler did: the actions in order, the arguments \<open>onTransaction\<close> was called
  with, and the exception that left the handler, if one did.
\<close>

record outcome =
  effects :: "effect list"
  invoked :: "jsval list"
  thrown :: "js_error option"

datatype ws_data = Unparseable | JsonText json

definition done_with :: "effect list \<Rightarrow> outcome" where
  "done_with es = \<lparr>effects = es, invoked = [], thrown = None\<rparr>"

definition throw_after :: "effect list \<Rightarrow> js_error \<Rightarrow> outcome" where
  "throw_after es e = \<lparr>effects = es, invoked = [], thrown = Some e\<rparr>"

text \<open>
  The second variant prints \<open>message.params.result.value\<close> before it fetches; the first
  does not read \<open>params\<close>.
\<close>

definition account_updated :: "variant \<Rightarrow> json \<Rightarrow> js_error + effect list" where
  "account_updated v message =
     (case v of
        V1 \<Rightarrow> Inr []
      | V2 \<Rightarrow>
          bindE (member (Some message) ''params'') (\<lambda>params.
          bindE (member params ''result'') (\<lambda>result.
          bindE (member result ''value'') (\<lambda>val.
            Inr [ConsoleLog (AccountUpdated val)]))))"

text \<open>The body of the \<open>try\<close> block of the message handler.\<close>

definition message_try ::
  "variant \<Rightarrow> (string \<Rightarrow> bool) \<Rightarrow> string \<Rightarrow> (jsval \<Rightarrow> effect list \<times> js_error option) \<Rightarrow>
   ws_data \<Rightarrow> http_result \<Rightarrow> outcome" where
  "message_try v publicKeyOk wallet onTransaction data resp =
     (case data of
        Unparseable \<Rightarrow> throw_after [] SyntaxError
      | JsonText message \<Rightarrow>
          (case member (Some message) ''method'' of
             Inl e \<Rightarrow> throw_after [] e
           | Inr method \<Rightarrow>
               if method = Some (JStr ''accountNotification'') then
                 (case account_updated v message of
                    Inl e \<Rightarrow> throw_after [] e
                  | Inr printed \<Rightarrow>
                      (case fetchRecentTransactionSignatures publicKeyOk wallet resp of
                         (recentSignatures, fetched) \<Rightarrow>
                           if length recentSignatures > 0 then
                             (let latestSignature = hd recentSignatures in
                              case onTransaction latestSignature of
                                (rendered, err) \<Rightarrow>
                                  \<lparr>effects = printed @ fetched
                                     @ [ConsoleLog (NewTransactionDetected latestSignature)]
                                     @ rendered,
                                   invoked = [latestSignature],
                                   thrown = err\<rparr>)
                           else done_with (printed @ fetched)))
               else done_with []))"

text \<open>The handler: the \<open>try\<close> block and its \<open>catch\<close>, which logs and returns.\<close>

definition on_message ::
  "variant \<Rightarrow> (string \<Rightarrow> bool) \<Rightarrow> string \<Rightarrow> (jsval \<Rightarrow> effect list \<times> js_error option) \<Rightarrow>
   ws_data \<Rightarrow> http_result \<Rightarrow> outcome" where
  "on_message v publicKeyOk wallet onTransaction data resp =
     (let r = message_try v publicKeyOk wallet onTransaction data resp in
      case thrown r of
        None \<Rightarrow> r
      | Some e \<Rightarrow>
          r\<lparr>effects := effects r @ [ConsoleError (WebSocketMessageProcessingError e)],
            thrown := None\<rparr>)"

section \<open>Configuration\<close>

definition MIN_SOL_AMOUNT :: rat where
  "MIN_SOL_AMOUNT = 1 / 1000"

definition SOL_MINT :: string where
  "SOL_MINT = ''So11111111111111111111111111111111111111112''"

definition DEFAULT_TOKEN_ICON :: string where
  "DEFAULT_TOKEN_ICON =
     ''https://raw.githubusercontent.com/solana-labs/token-list/main/assets/mainnet/So11111111111111111111111111111111111111112/logo.png''"

text \<open>
  A template literal prints \<open>undefined\<close> for a variable the environment does not hold.
\<close>

definition interpolate :: "string option \<Rightarrow> string" where
  "interpolate key = (case key of None \<Rightarrow> ''undefined'' | Some k \<Rightarrow> k)"

definition HELIUS_RPC_URL :: "string option \<Rightarrow> string" where
  "HELIUS_RPC_URL key = ''https://mainnet.helius-rpc.com/?api-key='' @ interpolate key"

definition HELIUS_WS_URL :: "string option \<Rightarrow> string" where
  "HELIUS_WS_URL key = ''wss://mainnet.helius-rpc.com/?api-key='' @ interpolate key"

text \<open>
  The top of the module, up to the creation of the connection; \<open>main\<close> is everything the
  module does after it. The second variant validates \<open>CONFIG.HELIUS_API_KEY\<close> (absent and
  empty are both falsy) and leaves through \<open>process.exit(1)\<close>; the first variant has no
  such block.
\<close>

definition module_init :: "variant \<Rightarrow> string option \<Rightarrow> effect list \<Rightarrow> effect list" where
  "module_init v key main =
     (case v of
        V1 \<Rightarrow> NewConnection (HELIUS_RPC_URL key) # main
      | V2 \<Rightarrow>
          if \<not> truthy (map_option JStr key)
          then [ConsoleError MissingApiKeyBox, ProcessExit 1]
          else NewConnection (HELIUS_RPC_URL key) # main)"

section \<open>Transaction renderer\<close>

text \<open>
  What the libraries hand to the renderer: a parsed transaction of the RPC client
  (\<open>meta\<close> may be null), and the trades of the DEX parser. A trade's amounts are numbers
  or missing.
\<close>

record tx_meta =
  fee :: int
  err :: bool

record parsed_tx =
  meta :: "tx_meta option"
  blockTime :: "int option"
  transaction :: string

record token =
  mint :: string
  amount :: jsval
  price :: jsval

record trade_fee =
  feeAmount :: jsval
  feeMint :: string

record trade =
  inputToken :: token
  outputToken :: token
  amm :: jsval
  tradeFee :: "trade_fee option"

text \<open>
  The collaborators, as the answers they give: the \<open>PublicKey\<close> constructor, the
  provider's answers to \<open>getSignaturesForAddress\<close>, \<open>getParsedTransaction\<close> and
  \<open>getAsset\<close>, the DEX parser, the image a download yields for an address (none when the
  download fails; a buffer is named by a string, and whether it came from the cache or
  the network is not told apart, the request for an image is not listed among the
  actions), and what the terminal libraries render a buffer to. Where the first variant
  awaits two calls together (\<open>Promise.all\<close>), which of the two settles first is the
  network's choice: \<open>assetSettlesFirst\<close> and \<open>imageSettlesFirst\<close> say whether the
  call listed first does. \<open>createTransactionCard\<close> lays its argument out as text with
  boxen, chalk and terminal-link; the model keeps the argument, and takes as given
  whether the call throws on it (\<open>slice\<close> is called on the name, the mints and the
  signature, which throws on a value that has no such method).
\<close>

record world =
  publicKeyOk :: "string \<Rightarrow> bool"
  signaturesFor :: "string \<Rightarrow> int \<Rightarrow> http_result"
  parsedTransaction :: "json \<Rightarrow> js_error + parsed_tx option"
  parseTrades :: "parsed_tx \<Rightarrow> js_error + trade list"
  assetFor :: "string \<Rightarrow> http_result"
  assetSettlesFirst :: "string \<Rightarrow> string \<Rightarrow> bool"
  imageFor :: "json \<Rightarrow> string option"
  imageSettlesFirst :: "json \<Rightarrow> json \<Rightarrow> bool"
  renderImage :: "string \<Rightarrow> string"
  cardLayoutError :: "transactionData \<Rightarrow> js_error option"

definition or_else :: "jsval \<Rightarrow> json \<Rightarrow> json" where
  "or_else x d = (case x of None \<Rightarrow> d | Some j \<Rightarrow> if truthy (Some j) then j else d)"

text \<open>
  \<open>formatNumber\<close>: on a value that is not a number the first variant answers \<open>N/A\<close>, the
  second throws.
\<close>

definition format_number :: "rat \<Rightarrow> formatted" where
  "format_number num =
     (if num \<ge> 1000000000 then WithSuffix (num / 1000000000) ''B''
      else if num \<ge> 1000000 then WithSuffix (num / 1000000) ''M''
      else if num \<ge> 1000 then WithSuffix (num / 1000) ''K''
      else if num < 1 / 100000 then Exponential num
      else FixedFive num)"

fun formatNumber :: "variant \<Rightarrow> jsval \<Rightarrow> js_error + formatted" where
  "formatNumber v (Some (JNum num)) = Inr (format_number num)"
| "formatNumber V1 x = Inr NotAvailable"
| "formatNumber V2 x = Inl TypeError"

text \<open>
  \<open>fetchAssetInfo\<close> sends its request when it is called and suspends; \<open>asset_settled\<close>
  is what it returns, and prints, once the request has settled.
\<close>

definition asset_settled :: "world \<Rightarrow> string \<Rightarrow> jsval \<times> effect list" where
  "asset_settled w m =
     (case bindE (await_json (assetFor w m)) (\<lambda>body. member (Some body) ''result'') of
        Inl e \<Rightarrow> (Some JNull, [ConsoleError (ErrorFetchingAssetInfo m e)])
      | Inr result \<Rightarrow> (result, []))"

definition fetchAssetInfo :: "world \<Rightarrow> string \<Rightarrow> jsval \<times> effect list" where
  "fetchAssetInfo w m =
     (case asset_settled w m of (info, printed) \<Rightarrow> (info, HttpPost (GetAsset m) # printed))"

text \<open>
  \<open>await Promise.all([f(a), f(b)])\<close>: both calls are made, each running up to its first
  \<open>await\<close>, before either resumes; what they do after that comes in the order in which
  they settle.
\<close>

definition settle_order :: "bool \<Rightarrow> effect list \<Rightarrow> effect list \<Rightarrow> effect list" where
  "settle_order firstSettlesFirst a b = (if firstSettlesFirst then a @ b else b @ a)"

definition lamports_to_sol :: "int \<Rightarrow> rat" where
  "lamports_to_sol n = of_int n / 1000000000"

definition block_time_ms :: "parsed_tx \<Rightarrow> int" where
  "block_time_ms tx = (case blockTime tx of None \<Rightarrow> 0 | Some t \<Rightarrow> t * 1000)"

definition parse_failed :: "json \<Rightarrow> js_error \<Rightarrow> effect list" where
  "parse_failed signature e =
     [SpinnerFail (ErrorParsingTransaction signature), ConsoleError (ThrownError e)]"

subsection \<open>First variant: one card per trade\<close>

definition COIN :: string where
  "COIN = ''(coin)''"

definition image_url :: "jsval \<Rightarrow> json" where
  "image_url info =
     or_else (opt_member (opt_member (opt_member info ''content'') ''links'') ''image'')
       (JStr DEFAULT_TOKEN_ICON)"

definition downloadAndCacheImage :: "world \<Rightarrow> json \<Rightarrow> string option \<times> effect list" where
  "downloadAndCacheImage w url =
     (case imageFor w url of
        None \<Rightarrow> (None, [ConsoleError (ErrorDownloadingImage url)])
      | Some buffer \<Rightarrow> (Some buffer, []))"

definition renderTokenImage :: "world \<Rightarrow> string option \<Rightarrow> string" where
  "renderTokenImage w imageBuffer =
     (case imageBuffer of None \<Rightarrow> COIN | Some buffer \<Rightarrow> renderImage w buffer)"

definition token_data :: "world \<Rightarrow> token \<Rightarrow> jsval \<Rightarrow> tokenData" where
  "token_data w t info =
     \<lparr>image = renderTokenImage w (fst (downloadAndCacheImage w (image_url info))),
      name =
        or_else (opt_member (opt_member (opt_member info ''content'') ''metadata'') ''name'')
          (JStr ''Unknown''),
      tokenMint = mint t,
      tokenAmount = or_else (amount t) (JNum 0),
      tokenPrice = or_else (price t) (JNum 0)\<rparr>"

definition transaction_data ::
  "world \<Rightarrow> json \<Rightarrow> parsed_tx \<Rightarrow> tx_meta \<Rightarrow> trade \<Rightarrow> jsval \<Rightarrow> jsval \<Rightarrow> transactionData" where
  "transaction_data w signature tx m t inputTokenInfo outputTokenInfo =
     (let isBuy = (mint (inputToken t) = SOL_MINT);
          transactionType = (if isBuy then ''BUY'' else ''SELL'')
      in \<lparr>txType = transactionType,
          inputTokenData = token_data w (inputToken t) inputTokenInfo,
          outputTokenData = token_data w (outputToken t) outputTokenInfo,
          status = (if err m then ''failed'' else ''success''),
          feeSol = lamports_to_sol (fee m),
          timestampMs = block_time_ms tx,
          cardSignature = signature\<rparr>)"

text \<open>
  What one trade does before its card: the two asset lookups together, then the two
  image downloads together. Both requests for the assets go out before either lookup
  prints its error line.
\<close>

definition trade_lookups :: "world \<Rightarrow> trade \<Rightarrow> (jsval \<times> jsval) \<times> effect list" where
  "trade_lookups w t =
     (case asset_settled w (mint (inputToken t)) of (inputTokenInfo, p1) \<Rightarrow>
      case asset_settled w (mint (outputToken t)) of (outputTokenInfo, p2) \<Rightarrow>
        ((inputTokenInfo, outputTokenInfo),
         [HttpPost (GetAsset (mint (inputToken t))), HttpPost (GetAsset (mint (outputToken t)))]
         @ settle_order (assetSettlesFirst w (mint (inputToken t)) (mint (outputToken t))) p1 p2
         @ settle_order (imageSettlesFirst w (image_url inputTokenInfo) (image_url outputTokenInfo))
             (snd (downloadAndCacheImage w (image_url inputTokenInfo)))
             (snd (downloadAndCacheImage w (image_url outputTokenInfo)))))"

text \<open>The loop over the trades.\<close>

fun trade_cards ::
  "world \<Rightarrow> json \<Rightarrow> parsed_tx \<Rightarrow> tx_meta \<Rightarrow> trade list \<Rightarrow> effect list \<times> js_error option" where
  "trade_cards w signature tx m [] = ([], None)"
| "trade_cards w signature tx m (t # ts) =
     (case trade_lookups w t of ((inputTokenInfo, outputTokenInfo), looked) \<Rightarrow>
        (let d = transaction_data w signature tx m t inputTokenInfo outputTokenInfo in
         case cardLayoutError w d of
           Some e \<Rightarrow> (looked, Some e)
         | None \<Rightarrow>
             (case trade_cards w signature tx m ts of
                (es, r) \<Rightarrow> (looked @ [ConsoleLog (TransactionCard d)] @ es, r))))"

definition render_v1 :: "world \<Rightarrow> json \<Rightarrow> parsed_tx \<Rightarrow> tx_meta \<Rightarrow> effect list" where
  "render_v1 w signature tx m =
     DexParseTrades #
     (case parseTrades w tx of
        Inl e \<Rightarrow> parse_failed signature e
      | Inr trades \<Rightarrow>
          (case trade_cards w signature tx m trades of
             (es, Some e) \<Rightarrow> es @ parse_failed signature e
           | (es, None) \<Rightarrow> es @ [SpinnerSucceed TransactionParsedSuccessfully]))"

subsection \<open>Second variant: one box per transaction\<close>

definition detail_if :: "jsval \<Rightarrow> (json \<Rightarrow> detail_line) \<Rightarrow> detail_line list" where
  "detail_if x line = (case x of None \<Rightarrow> [] | Some j \<Rightarrow> if truthy (Some j) then [line j] else [])"

definition getTokenDetails :: "jsval \<Rightarrow> js_error + detail_line list" where
  "getTokenDetails tokenInfo =
     (if \<not> truthy tokenInfo then Inr [NoTokenInformation]
      else
        (let metadata = opt_member (opt_member tokenInfo ''content'') ''metadata'';
             links = opt_member (opt_member tokenInfo ''content'') ''links'';
             inner = opt_member tokenInfo ''tokenInfo'';
             supply = opt_member inner ''supply''
         in bindE (if truthy supply
                   then bindE (formatNumber V2 supply) (\<lambda>f. Inr [SupplyDetail f])
                   else Inr [])
              (\<lambda>supplyLine.
                 (let details =
                        detail_if (opt_member metadata ''name'') NameDetail
                        @ detail_if (opt_member metadata ''symbol'') SymbolDetail
                        @ detail_if (opt_member tokenInfo ''id'') MintDetail
                        @ detail_if (opt_member links ''image'') ImageDetail
                        @ supplyLine
                        @ detail_if (opt_member inner ''decimals'') DecimalsDetail
                  in Inr (if length details > 0 then details else [NoAdditionalTokenDetails])))))"

definition symbol_of :: "jsval \<Rightarrow> json" where
  "symbol_of info =
     or_else (opt_member (opt_member (opt_member info ''content'') ''metadata'') ''symbol'')
       (JStr ''Unknown'')"

definition fee_line :: "trade \<Rightarrow> js_error + detail_line" where
  "fee_line t =
     (case tradeFee t of
        None \<Rightarrow> Inr EmptyLine
      | Some f \<Rightarrow> bindE (formatNumber V2 (feeAmount f)) (\<lambda>a. Inr (FeeLine a (feeMint f))))"

definition trade_details :: "string \<Rightarrow> trade \<Rightarrow> jsval \<Rightarrow> jsval \<Rightarrow> js_error + detail_line list" where
  "trade_details transactionType t inputTokenInfo outputTokenInfo =
     bindE (getTokenDetails inputTokenInfo) (\<lambda>inputTokenDetails.
     bindE (getTokenDetails outputTokenInfo) (\<lambda>outputTokenDetails.
     bindE (formatNumber V2 (amount (inputToken t))) (\<lambda>inputAmount.
     bindE (formatNumber V2 (amount (outputToken t))) (\<lambda>outputAmount.
     bindE (fee_line t) (\<lambda>feeLine.
       Inr ([TradeLine (or_else (amm t) (JStr ''Unknown'')) transactionType, InputTokenHeader]
            @ inputTokenDetails
            @ [AmountLine inputAmount (symbol_of inputTokenInfo), BlankLine, OutputTokenHeader]
            @ outputTokenDetails
            @ [AmountLine outputAmount (symbol_of outputTokenInfo), BlankLine, feeLine]))))))"

text \<open>
  The loop over the trades, with the two variables it updates: \<open>transactionType\<close> and
  \<open>transactionDetails\<close>.
\<close>

fun trade_lines ::
  "world \<Rightarrow> string \<Rightarrow> detail_line list \<Rightarrow> trade list \<Rightarrow>
   effect list \<times> (js_error + string \<times> detail_line list)" where
  "trade_lines w transactionType details [] = ([], Inr (transactionType, details))"
| "trade_lines w transactionType details (t # ts) =
     (case fetchAssetInfo w (mint (inputToken t)) of (inputTokenInfo, e1) \<Rightarrow>
      case fetchAssetInfo w (mint (outputToken t)) of (outputTokenInfo, e2) \<Rightarrow>
        (let isBuy = (mint (inputToken t) = SOL_MINT);
             transactionType' = (if isBuy then ''Buy'' else ''Sell'')
         in case trade_details transactionType' t inputTokenInfo outputTokenInfo of
              Inl e \<Rightarrow> (e1 @ e2, Inl e)
            | Inr lines \<Rightarrow>
                (case trade_lines w transactionType' (details @ lines) ts of
                   (es, r) \<Rightarrow> (e1 @ e2 @ es, r))))"

definition render_v2 :: "world \<Rightarrow> json \<Rightarrow> parsed_tx \<Rightarrow> tx_meta \<Rightarrow> effect list" where
  "render_v2 w signature tx m =
     SpinnerSucceed TransactionParsedSuccessfully # DexParseTrades #
     (case parseTrades w tx of
        Inl e \<Rightarrow> parse_failed signature e
      | Inr trades \<Rightarrow>
          (case trade_lines w ''Unknown'' [] trades of
             (es, Inl e) \<Rightarrow> es @ parse_failed signature e
           | (es, Inr (transactionType, details)) \<Rightarrow>
               es @ [ConsoleLog (TransactionBox
                      \<lparr>boxType = transactionType,
                       boxSignature = signature,
                       boxTimestampMs = block_time_ms tx,
                       boxFailed = err m,
                       boxFeeSol = lamports_to_sol (fee m),
                       transactionDetails = details\<rparr>)]))"

subsection \<open>parseTransaction\<close>

text \<open>
  The fee is a whole number of lamports; \<open>tx.meta.fee / 1e9 < CONFIG.MIN_SOL_AMOUNT\<close> is
  read in exact arithmetic (on whole lamports the comparison of the doubles has the same
  outcome). A null \<open>meta\<close> makes \<open>tx.meta.fee\<close> throw inside the \<open>try\<close>.
\<close>

definition parseTransaction :: "variant \<Rightarrow> world \<Rightarrow> jsval \<Rightarrow> effect list" where
  "parseTransaction v w signature =
     (case signature of
        None \<Rightarrow> [ConsoleError (InvalidSignatureReceived signature)]
      | Some s \<Rightarrow>
          if \<not> truthy signature then [ConsoleError (InvalidSignatureReceived signature)]
          else
            SpinnerStart ParsingTransaction # HttpPost (GetParsedTransaction s) #
            (case parsedTransaction w s of
               Inl e \<Rightarrow> parse_failed s e
             | Inr None \<Rightarrow> [SpinnerFail (TransactionNotFound s)]
             | Inr (Some tx) \<Rightarrow>
                 (case meta tx of
                    None \<Rightarrow> parse_failed s TypeError
                  | Some m \<Rightarrow>
                      if lamports_to_sol (fee m) < MIN_SOL_AMOUNT
                      then [SpinnerInfo (SkippingLowValueTransaction s)]
                      else (case v of V1 \<Rightarrow> render_v1 w s tx m | V2 \<Rightarrow> render_v2 w s tx m))))"

section \<open>The fetch command\<close>

text \<open>
  \<open>signatures?.length\<close> and \<open>for (const tx of signatures)\<close> on whatever the provider put
  under \<open>result\<close>: an array and a string have a length and can be iterated, an object has
  the length it holds as a property and cannot be iterated.
\<close>

fun length_of :: "jsval \<Rightarrow> jsval" where
  "length_of (Some (JArr xs)) = Some (JNum (of_nat (length xs)))"
| "length_of (Some (JStr s)) = Some (JNum (of_nat (length s)))"
| "length_of (Some (JObj kvs)) = map_of kvs ''length''"
| "length_of v = None"

fun iterate :: "jsval \<Rightarrow> js_error + json list" where
  "iterate (Some (JArr xs)) = Inr xs"
| "iterate (Some (JStr s)) = Inr (map (\<lambda>c. JStr [c]) s)"
| "iterate v = Inl TypeError"

definition fetch_failed :: "js_error \<Rightarrow> effect list" where
  "fetch_failed e = [SpinnerFail ErrorFetchingTransactions, ConsoleError (ThrownError e)]"

text \<open>
  The render loop: \<open>for (const tx of signatures) await parseTransaction(tx.signature,
  wallet)\<close>. Reading \<open>signature\<close> off a null entry throws and ends the loop in the
  \<open>catch\<close> of \<open>fetchTransactions\<close>.
\<close>

fun render_loop :: "variant \<Rightarrow> world \<Rightarrow> json list \<Rightarrow> effect list" where
  "render_loop v w [] = []"
| "render_loop v w (tx # txs) =
     (case member (Some tx) ''signature'' of
        Inl e \<Rightarrow> fetch_failed e
      | Inr s \<Rightarrow> parseTransaction v w s @ render_loop v w txs)"

definition fetchTransactions :: "variant \<Rightarrow> world \<Rightarrow> string \<Rightarrow> int \<Rightarrow> effect list" where
  "fetchTransactions v w wallet limit =
     SpinnerStart FetchingTransactions #
     (if \<not> publicKeyOk w wallet then fetch_failed InvalidPublicKey
      else
        HttpPost (GetSignaturesForAddress wallet limit) #
        (case bindE (await_json (signaturesFor w wallet limit))
                (\<lambda>body. member (Some body) ''result'') of
           Inl e \<Rightarrow> fetch_failed e
         | Inr signatures \<Rightarrow>
             if \<not> truthy (length_of signatures) then [SpinnerFail NoTransactionsFound]
             else
               SpinnerSucceed (FetchedTransactions (length_of signatures)) #
               (case iterate signatures of
                  Inl e \<Rightarrow> fetch_failed e
                | Inr txs \<Rightarrow> render_loop v w txs)))"



section \<open>The track command\<close>

text \<open>
  \<open>trackWallet\<close> passes a callback that runs \<open>parseTransaction\<close> inside its own
  \<open>try\<close>; nothing leaves it.
\<close>

definition track_callback :: "variant \<Rightarrow> world \<Rightarrow> jsval \<Rightarrow> effect list \<times> js_error option" where
  "track_callback v w signature = (parseTransaction v w signature, None)"

text \<open>
  A session: the state of the socket \<open>setupWebSocket\<close> made last, how many sockets were
  made, the delays of the pending \<open>setTimeout\<close> calls that will run \<open>setupWebSocket\<close>
  again, and what was done so far. The session holds no signature.
\<close>

datatype ready_state = CONNECTING | OPEN | CLOSED

record session =
  readyState :: ready_state
  sockets :: nat
  reconnectTimers :: "nat list"
  heartbeats :: nat
  trace :: "effect list"
  dispatched :: "jsval list"

datatype ws_event =
    WsOpen
  | WsMessage ws_data http_result
  | WsError
  | WsClose
  | TimerFires

definition setupWebSocket :: "string option \<Rightarrow> session \<Rightarrow> session" where
  "setupWebSocket key s =
     s\<lparr>readyState := CONNECTING,
       sockets := Suc (sockets s),
       trace := trace s @ [NewWebSocket (HELIUS_WS_URL key)]\<rparr>"

definition no_session :: session where
  "no_session =
     \<lparr>readyState = CLOSED, sockets = 0, reconnectTimers = [], heartbeats = 0,
      trace = [], dispatched = []\<rparr>"

definition trackWallet :: "string option \<Rightarrow> session" where
  "trackWallet key = setupWebSocket key no_session"

text \<open>The handlers \<open>setupWebSocket\<close> registers, and the timer it sets on close.\<close>

definition on_open :: "string \<Rightarrow> session \<Rightarrow> session" where
  "on_open wallet s =
     s\<lparr>readyState := OPEN,
       heartbeats := Suc (heartbeats s),
       trace := trace s @ [ConsoleLog WebSocketConnected, WsSendAccountSubscribe wallet,
                           SetInterval 30000]\<rparr>"

definition on_error :: "session \<Rightarrow> session" where
  "on_error s = s\<lparr>trace := trace s @ [ConsoleError WebSocketErrorLine]\<rparr>"

definition on_close :: "session \<Rightarrow> session" where
  "on_close s =
     s\<lparr>readyState := CLOSED,
       reconnectTimers := reconnectTimers s @ [5000],
       trace := trace s @ [ConsoleLog WebSocketDisconnected, SetTimeout 5000]\<rparr>"

definition on_timer :: "string option \<Rightarrow> session \<Rightarrow> session" where
  "on_timer key s =
     (case reconnectTimers s of
        [] \<Rightarrow> s
      | d # ds \<Rightarrow> setupWebSocket key (s\<lparr>reconnectTimers := ds\<rparr>))"

definition ws_step ::
  "variant \<Rightarrow> world \<Rightarrow> string option \<Rightarrow> string \<Rightarrow> session \<Rightarrow> ws_event \<Rightarrow> session" where
  "ws_step v w key wallet s ev =
     (case ev of
        WsOpen \<Rightarrow> on_open wallet s
      | WsMessage data resp \<Rightarrow>
          (let r = on_message v (publicKeyOk w) wallet (track_callback v w) data resp
           in s\<lparr>trace := trace s @ effects r, dispatched := dispatched s @ invoked r\<rparr>)
      | WsError \<Rightarrow> on_error s
      | WsClose \<Rightarrow> on_close s
      | TimerFires \<Rightarrow> on_timer key s)"

text \<open>
  A run of the session over the events in the order they arrive. The actions of a
  message handler are listed whole at the place of its message, as they come when the
  handler has settled before the next event arrives. When it has not, the code lets the
  two handlers take turns at their \<open>await\<close>s, and their actions (and the order of two
  calls of \<open>onTransaction\<close>) interleave; nothing below rests on the order of the actions
  of two handlers. The handlers of open, error, close and the timer do not suspend.
\<close>

fun ws_run ::
  "variant \<Rightarrow> world \<Rightarrow> string option \<Rightarrow> string \<Rightarrow> session \<Rightarrow> ws_event list \<Rightarrow> session" where
  "ws_run v w key wallet s [] = s"
| "ws_run v w key wallet s (ev # evs) = ws_run v w key wallet (ws_step v w key wallet s ev) evs"

text \<open>
  One life of a connection: it opens, messages arrive, it closes, and the timer set on
  close fires.
\<close>

definition session_cycle :: "(ws_data \<times> http_result) list \<Rightarrow> ws_event list" where
  "session_cycle msgs = WsOpen # map (\<lambda>(d, r). WsMessage d r) msgs @ [WsClose, TimerFires]"

section \<open>Reading a trace\<close>

definition limit_of :: "effect \<Rightarrow> int list" where
  "limit_of e = (case e of HttpPost (GetSignaturesForAddress wallet n) \<Rightarrow> [n] | _ \<Rightarrow> [])"

definition requested_limits :: "effect list \<Rightarrow> int list" where
  "requested_limits es = concat (map limit_of es)"

definition card_of :: "effect \<Rightarrow> transactionData list" where
  "card_of e = (case e of ConsoleLog (TransactionCard d) \<Rightarrow> [d] | _ \<Rightarrow> [])"

definition cards :: "effect list \<Rightarrow> transactionData list" where
  "cards es = concat (map card_of es)"

definition box_of :: "effect \<Rightarrow> transactionBox list" where
  "box_of e = (case e of ConsoleLog (TransactionBox b) \<Rightarrow> [b] | _ \<Rightarrow> [])"

definition boxes :: "effect list \<Rightarrow> transactionBox list" where
  "boxes es = concat (map box_of es)"

definition trade_type_of :: "detail_line \<Rightarrow> string list" where
  "trade_type_of l = (case l of TradeLine a ty \<Rightarrow> [ty] | _ \<Rightarrow> [])"

definition trade_types :: "detail_line list \<Rightarrow> string list" where
  "trade_types ls = concat (map trade_type_of ls)"

text \<open>The delays of the timers set, and the addresses of the sockets made.\<close>

definition timeout_of :: "effect \<Rightarrow> nat list" where
  "timeout_of e = (case e of SetTimeout d \<Rightarrow> [d] | _ \<Rightarrow> [])"

definition timeouts :: "effect list \<Rightarrow> nat list" where
  "timeouts es = concat (map timeout_of es)"

definition socket_of :: "effect \<Rightarrow> string list" where
  "socket_of e = (case e of NewWebSocket u \<Rightarrow> [u] | _ \<Rightarrow> [])"

definition sockets_opened :: "effect list \<Rightarrow> string list" where
  "sockets_opened es = concat (map socket_of es)"

text \<open>
  Where a render begins and where it ends. A render begins with the spinner line
  \<open>Parsing transaction...\<close> and ends with the line that reports its outcome: the
  transaction is not found, it is skipped, an error was caught (\<open>console.error(error)\<close>
  is the last statement of the \<open>catch\<close>), or it is done, which the first variant
  reports with the closing spinner line and the second with the box it prints last. A
  render of a missing signature is the one line that rejects it. \<open>lookups\<close> are the
  signatures the renders asked the provider for, \<open>looked_up\<close> the one a render of a
  given signature asks for.
\<close>

datatype mark = Begins | Ends

definition mark_of :: "variant \<Rightarrow> effect \<Rightarrow> mark list" where
  "mark_of v e =
     (case e of
        SpinnerStart ParsingTransaction \<Rightarrow> [Begins]
      | ConsoleError (InvalidSignatureReceived s) \<Rightarrow> [Begins, Ends]
      | ConsoleError (ThrownError x) \<Rightarrow> [Ends]
      | SpinnerFail (TransactionNotFound s) \<Rightarrow> [Ends]
      | SpinnerInfo (SkippingLowValueTransaction s) \<Rightarrow> [Ends]
      | SpinnerSucceed TransactionParsedSuccessfully \<Rightarrow> (if v = V1 then [Ends] else [])
      | ConsoleLog (TransactionBox b) \<Rightarrow> (if v = V2 then [Ends] else [])
      | _ \<Rightarrow> [])"

definition marks :: "variant \<Rightarrow> effect list \<Rightarrow> mark list" where
  "marks v es = concat (map (mark_of v) es)"

definition lookup_of :: "effect \<Rightarrow> json list" where
  "lookup_of e = (case e of HttpPost (GetParsedTransaction s) \<Rightarrow> [s] | _ \<Rightarrow> [])"

definition lookups :: "effect list \<Rightarrow> json list" where
  "lookups es = concat (map lookup_of es)"

definition looked_up :: "jsval \<Rightarrow> json list" where
  "looked_up signature =
     (case signature of None \<Rightarrow> [] | Some s \<Rightarrow> if truthy (Some s) then [s] else [])"

text \<open>Actions inside a render, which neither begin nor end it.\<close>

definition inner_effect :: "variant \<Rightarrow> effect \<Rightarrow> bool" where
  "inner_effect v e = (mark_of v e = [] \<and> lookup_of e = [])"

text \<open>
  Actions on the connection, the timers and the process, as opposed to what a render
  prints and requests.
\<close>

fun connection_effect :: "effect \<Rightarrow> bool" where
  "connection_effect (NewConnection u) = True"
| "connection_effect (NewWebSocket u) = True"
| "connection_effect (WsSendAccountSubscribe a) = True"
| "connection_effect (SetInterval n) = True"
| "connection_effect (SetTimeout n) = True"
| "connection_effect (ProcessExit c) = True"
| "connection_effect e = False"

text \<open>What a render may do: no action on a connection, and no signature request.\<close>

definition render_effect :: "effect \<Rightarrow> bool" where
  "render_effect e = (\<not> connection_effect e \<and> limit_of e = [])"

fun error_logged :: "effect \<Rightarrow> bool" where
  "error_logged (ConsoleError l) = True"
| "error_logged e = False"

fun failure_reported :: "effect \<Rightarrow> bool" where
  "failure_reported (ConsoleError l) = True"
| "failure_reported (SpinnerFail l) = True"
| "failure_reported e = False"

fun process_exit :: "effect \<Rightarrow> bool" where
  "process_exit (ProcessExit c) = True"
| "process_exit e = False"

section \<open>Classes of inputs\<close>

text \<open>
  A message the handler takes for an account notification: its \<open>method\<close> is the string
  \<open>accountNotification\<close>, and (second variant) \<open>params.result\<close> can be read.
\<close>

definition notifies :: "variant \<Rightarrow> ws_data \<Rightarrow> bool" where
  "notifies v d =
     (case d of
        Unparseable \<Rightarrow> False
      | JsonText msg \<Rightarrow>
          member (Some msg) ''method'' = Inr (Some (JStr ''accountNotification'')) \<and>
          (case account_updated v msg of Inl e \<Rightarrow> False | Inr printed \<Rightarrow> True))"

text \<open>
  The entries of the provider's answer to a signature request, when the body holds an
  array under \<open>result\<close>. A request has failed when there are none: the network call
  fails, the body is not JSON, or the body holds no array under \<open>result\<close> (as the error
  reply of the provider, which has an \<open>error\<close> member instead).
\<close>

definition result_entries :: "http_result \<Rightarrow> json list option" where
  "result_entries resp =
     (case resp of
        NetworkError \<Rightarrow> None
      | BodyNotJson \<Rightarrow> None
      | JsonBody body \<Rightarrow>
          (case member (Some body) ''result'' of
             Inr (Some (JArr txs)) \<Rightarrow> Some txs
           | _ \<Rightarrow> None))"

definition provider_failure :: "http_result \<Rightarrow> bool" where
  "provider_failure resp = (result_entries resp = None)"

section \<open>Example inputs\<close>

definition signature_entry :: "string \<Rightarrow> json" where
  "signature_entry s = JObj [(''signature'', JStr s)]"

definition signatures_response :: "json list \<Rightarrow> http_result" where
  "signatures_response txs = JsonBody (JObj [(''jsonrpc'', JStr ''2.0''), (''result'', JArr txs)])"

definition account_notification :: json where
  "account_notification =
     JObj [(''jsonrpc'', JStr ''2.0''), (''method'', JStr ''accountNotification''),
           (''params'', JObj [(''result'', JObj [(''value'', JObj [(''lamports'', JNum 1)])])])]"

definition subscription_reply :: json where
  "subscription_reply = JObj [(''jsonrpc'', JStr ''2.0''), (''result'', JNum 23784), (''id'', JNum 1)]"

definition odd_message :: json where
  "odd_message = JObj [(''jsonrpc'', JStr ''2.0''), (''method'', JNum 7)]"

definition error_reply :: http_result where
  "error_reply =
     JsonBody (JObj [(''jsonrpc'', JStr ''2.0''),
                     (''error'', JObj [(''code'', JNum (- 32401)), (''message'', JStr ''Unauthorized'')])])"

definition buy_trade :: trade where
  "buy_trade =
     \<lparr>inputToken = \<lparr>mint = SOL_MINT, amount = Some (JNum 2), price = None\<rparr>,
      outputToken = \<lparr>mint = ''TokenMint'', amount = Some (JNum 5000), price = None\<rparr>,
      amm = Some (JStr ''Raydium''), tradeFee = None\<rparr>"

definition sell_trade :: trade where
  "sell_trade =
     \<lparr>inputToken = \<lparr>mint = ''TokenMint'', amount = Some (JNum 5000), price = None\<rparr>,
      outputToken = \<lparr>mint = SOL_MINT, amount = Some (JNum 2), price = None\<rparr>,
      amm = Some (JStr ''Raydium''), tradeFee = None\<rparr>"

definition swap_tx :: parsed_tx where
  "swap_tx = \<lparr>meta = Some \<lparr>fee = 2000000, err = False\<rparr>, blockTime = Some 1700000000,
              transaction = ''swap''\<rparr>"

definition cheap_tx :: parsed_tx where
  "cheap_tx = \<lparr>meta = Some \<lparr>fee = 5000, err = False\<rparr>, blockTime = Some 1700000000,
               transaction = ''transfer''\<rparr>"

text \<open>
  A provider that knows two transactions of the wallet, \<open>sigA\<close> (a swap with a buy and
  a sell, fee 0.002 SOL) and \<open>sigB\<close> (fee 0.000005 SOL), and answers no asset lookup;
  of two lookups made together the second fails first.
\<close>

definition example_world :: world where
  "example_world =
     \<lparr>publicKeyOk = (\<lambda>wallet. True),
      signaturesFor = (\<lambda>wallet n. signatures_response [signature_entry ''sigA'', signature_entry ''sigB'']),
      parsedTransaction =
        (\<lambda>s. if s = JStr ''sigA'' then Inr (Some swap_tx)
             else if s = JStr ''sigB'' then Inr (Some cheap_tx)
             else Inr None),
      parseTrades = (\<lambda>tx. if transaction tx = ''swap'' then Inr [buy_trade, sell_trade] else Inr []),
      assetFor = (\<lambda>m. NetworkError),
      assetSettlesFirst = (\<lambda>a b. False),
      imageFor = (\<lambda>url. if url = JStr DEFAULT_TOKEN_ICON then Some ''icon'' else None),
      imageSettlesFirst = (\<lambda>a b. True),
      renderImage = (\<lambda>buffer. ''image of '' @ buffer),
      cardLayoutError = (\<lambda>d. None)\<rparr>"

section \<open>What a render does\<close>

lemma render_effect_simps [simp]:
  "render_effect (ConsoleLog l)"
  "render_effect (ConsoleError l)"
  "render_effect (SpinnerStart p)"
  "render_effect (SpinnerFail p)"
  "render_effect (SpinnerInfo p)"
  "render_effect (SpinnerSucceed p)"
  "render_effect (HttpPost (GetParsedTransaction j))"
  "render_effect (HttpPost (GetAsset a))"
  "render_effect DexParseTrades"
  by (simp_all add: render_effect_def limit_of_def)

lemma asset_settled_render: "asset_settled w m = (info, es) \<Longrightarrow> list_all render_effect es"
  by (auto simp: asset_settled_def split: sum.splits)

lemma fetchAssetInfo_render: "fetchAssetInfo w m = (info, es) \<Longrightarrow> list_all render_effect es"
  by (auto simp: fetchAssetInfo_def split: prod.splits dest: asset_settled_render)

lemma settle_order_render:
  "list_all render_effect a \<Longrightarrow> list_all render_effect b \<Longrightarrow>
   list_all render_effect (settle_order f a b)"
  by (simp add: settle_order_def)

lemma downloadAndCacheImage_render:
  "list_all render_effect (snd (downloadAndCacheImage w url))"
  by (simp add: downloadAndCacheImage_def split: option.splits)

lemma trade_lookups_render: "trade_lookups w t = (infos, es) \<Longrightarrow> list_all render_effect es"
  by (auto simp: trade_lookups_def split: prod.splits
      intro!: settle_order_render downloadAndCacheImage_render dest: asset_settled_render)

lemma parse_failed_render: "list_all render_effect (parse_failed s e)"
  by (simp add: parse_failed_def)

lemma trade_cards_render: "trade_cards w s tx m ts = (es, r) \<Longrightarrow> list_all render_effect es"
proof (induction ts arbitrary: es r)
  case Nil
  then show ?case by simp
next
  case (Cons t ts)
  then show ?case
    by (auto simp: Let_def split: prod.splits option.splits dest: trade_lookups_render)
qed

lemma trade_lines_render:
  "trade_lines w ty acc ts = (es, r) \<Longrightarrow> list_all render_effect es"
proof (induction ts arbitrary: ty acc es r)
  case Nil
  then show ?case by simp
next
  case (Cons t ts)
  then show ?case
    by (auto simp: Let_def split: prod.splits sum.splits if_splits dest: fetchAssetInfo_render)
qed

lemma render_v1_render: "list_all render_effect (render_v1 w s tx m)"
  by (auto simp: render_v1_def parse_failed_render split: sum.splits prod.splits option.splits
      dest: trade_cards_render)

lemma render_v2_render: "list_all render_effect (render_v2 w s tx m)"
  by (auto simp: render_v2_def parse_failed_render split: sum.splits prod.splits
      dest: trade_lines_render)

lemma parseTransaction_render: "list_all render_effect (parseTransaction v w s)"
  by (simp add: parseTransaction_def parse_failed_render render_v1_render render_v2_render
      split: option.splits sum.splits variant.splits)

section \<open>The message handler\<close>

lemma invoked_on_message:
  "invoked (on_message v pk wallet cb d r) = invoked (message_try v pk wallet cb d r)"
  by (simp add: on_message_def Let_def split: option.splits)

lemma thrown_on_message: "thrown (on_message v pk wallet cb d r) = None"
  by (simp add: on_message_def Let_def split: option.splits)

lemma invoked_message_try:
  "invoked (message_try v pk wallet cb d r) = [] \<or>
   (fst (fetchRecentTransactionSignatures pk wallet r) \<noteq> [] \<and>
    invoked (message_try v pk wallet cb d r) =
      [hd (fst (fetchRecentTransactionSignatures pk wallet r))])"
  by (auto simp: message_try_def done_with_def throw_after_def Let_def
      split: ws_data.splits sum.splits prod.splits)

text \<open>
  C10. One inbound message makes the handler call \<open>onTransaction\<close> at most once, and
  only with the first element of the sequence the signature fetch returned; when the
  fetch returns the empty sequence the handler is not called. This holds in both
  variants, for every message, every answer of the provider and every callback.
\<close>

theorem notification_dispatches_first_signature_at_most_once:
  "length (invoked (on_message v pk wallet cb d r)) \<le> 1 \<and>
   (\<forall>s \<in> set (invoked (on_message v pk wallet cb d r)).
      fst (fetchRecentTransactionSignatures pk wallet r) \<noteq> [] \<and>
      s = hd (fst (fetchRecentTransactionSignatures pk wallet r))) \<and>
   (fst (fetchRecentTransactionSignatures pk wallet r) = [] \<longrightarrow>
      invoked (on_message v pk wallet cb d r) = [])"
  using invoked_message_try [of v pk wallet cb d r]
  by (auto simp: invoked_on_message)

theorem notification_dispatches_first_signature_at_most_once_witness:
  "invoked (on_message V2 (\<lambda>wallet. True) ''wallet'' (track_callback V2 example_world)
      (JsonText account_notification)
      (signatures_response [signature_entry ''sigB'', signature_entry ''sigA''])) =
     [Some (JStr ''sigB'')] \<and>
   fst (fetchRecentTransactionSignatures (\<lambda>wallet. True) ''wallet''
      (signatures_response [signature_entry ''sigB'', signature_entry ''sigA''])) =
     [Some (JStr ''sigB''), Some (JStr ''sigA'')] \<and>
   invoked (on_message V2 (\<lambda>wallet. True) ''wallet'' (track_callback V2 example_world)
      (JsonText account_notification) NetworkError) = []"
proof -
  let ?pk = "\<lambda>wallet::string. True"
  let ?cb = "track_callback V2 example_world"
  let ?r = "signatures_response [signature_entry ''sigB'', signature_entry ''sigA'']"
  have f: "fst (fetchRecentTransactionSignatures ?pk ''wallet'' ?r) =
             [Some (JStr ''sigB''), Some (JStr ''sigA'')]"
    by code_simp
  have g: "fst (fetchRecentTransactionSignatures ?pk ''wallet'' NetworkError) = []"
    by code_simp
  have n: "invoked (on_message V2 ?pk ''wallet'' ?cb (JsonText account_notification) ?r) \<noteq> []"
    by code_simp
  note a = notification_dispatches_first_signature_at_most_once
             [of V2 ?pk "''wallet''" ?cb "JsonText account_notification" ?r]
  note b = notification_dispatches_first_signature_at_most_once
             [of V2 ?pk "''wallet''" ?cb "JsonText account_notification" NetworkError]
  from a n f have one:
    "invoked (on_message V2 ?pk ''wallet'' ?cb (JsonText account_notification) ?r) =
       [Some (JStr ''sigB'')]"
    by (cases "invoked (on_message V2 ?pk ''wallet'' ?cb (JsonText account_notification) ?r)")
      auto
  from b g have none:
    "invoked (on_message V2 ?pk ''wallet'' ?cb (JsonText account_notification) NetworkError) = []"
    by blast
  from one f none show ?thesis by blast
qed

section \<open>De-duplication\<close>

lemma invoked_notification:
  assumes "notifies v d"
    and "fst (fetchRecentTransactionSignatures pk wallet r) = x # xs"
  shows "invoked (on_message v pk wallet cb d r) = [x]"
  using assms
  by (auto simp: invoked_on_message notifies_def message_try_def Let_def
      split: ws_data.splits sum.splits prod.splits)

lemma dispatched_ws_step_message:
  "dispatched (ws_step v w key wallet s (WsMessage d r)) =
     dispatched s @ invoked (on_message v (publicKeyOk w) wallet (track_callback v w) d r)"
  by (simp add: ws_step_def Let_def)

lemma dispatched_ws_step_other:
  "dispatched (ws_step v w key wallet s WsOpen) = dispatched s"
  "dispatched (ws_step v w key wallet s WsError) = dispatched s"
  "dispatched (ws_step v w key wallet s WsClose) = dispatched s"
  "dispatched (ws_step v w key wallet s TimerFires) = dispatched s"
  by (simp_all add: ws_step_def on_open_def on_error_def on_close_def on_timer_def
      setupWebSocket_def split: list.splits)

text \<open>
  C1, as the specification states it: two consecutive notifications that resolve to the
  same latest signature call the handler at most once for it. The session of the
  program holds no signature, and the handler compares nothing: in the run below both
  notifications resolve to \<open>sigB\<close>, and \<open>sigB\<close> is dispatched twice, in either variant.
\<close>

theorem last_seen_signature_counterexample:
  "\<not> count_list
       (dispatched (ws_run V1 example_world (Some ''key'') ''wallet'' (trackWallet (Some ''key''))
          [WsOpen,
           WsMessage (JsonText account_notification) (signatures_response [signature_entry ''sigB'']),
           WsMessage (JsonText account_notification) (signatures_response [signature_entry ''sigB''])]))
       (Some (JStr ''sigB'')) \<le> 1 \<and>
   \<not> count_list
       (dispatched (ws_run V2 example_world (Some ''key'') ''wallet'' (trackWallet (Some ''key''))
          [WsOpen,
           WsMessage (JsonText account_notification) (signatures_response [signature_entry ''sigB'']),
           WsMessage (JsonText account_notification) (signatures_response [signature_entry ''sigB''])]))
       (Some (JStr ''sigB'')) \<le> 1"
proof -
  have n: "notifies v (JsonText account_notification)" for v
    by (cases v)
       (simp_all add: notifies_def account_notification_def account_updated_def bindE_def)
  have f: "fst (fetchRecentTransactionSignatures (publicKeyOk example_world) ''wallet''
             (signatures_response [signature_entry ''sigB''])) = [Some (JStr ''sigB'')]"
    by code_simp
  have i: "invoked (on_message v (publicKeyOk example_world) ''wallet''
             (track_callback v example_world) (JsonText account_notification)
             (signatures_response [signature_entry ''sigB''])) = [Some (JStr ''sigB'')]" for v
    using n f by (rule invoked_notification)
  have d: "dispatched (trackWallet (Some ''key'')) = []"
    by (simp add: trackWallet_def setupWebSocket_def no_session_def)
  show ?thesis
    by (simp add: dispatched_ws_step_message dispatched_ws_step_other i d)
qed

text \<open>
  C1, amended: every notification whose signature fetch returns a non-empty sequence
  calls the handler once with the first signature, whatever was dispatched before; two
  consecutive notifications that resolve to the same signature dispatch it twice.
\<close>

theorem same_signature_dispatched_once_per_notification:
  assumes "notifies v d1" and "notifies v d2"
    and "fst (fetchRecentTransactionSignatures (publicKeyOk w) wallet r1) = x # xs1"
    and "fst (fetchRecentTransactionSignatures (publicKeyOk w) wallet r2) = x # xs2"
  shows "dispatched (ws_run v w key wallet s [WsMessage d1 r1, WsMessage d2 r2]) =
           dispatched s @ [x, x]"
  using assms
  by (simp add: dispatched_ws_step_message invoked_notification)

theorem same_signature_dispatched_once_per_notification_witness:
  "notifies V2 (JsonText account_notification) \<and>
   fst (fetchRecentTransactionSignatures (publicKeyOk example_world) ''wallet''
          (signatures_response [signature_entry ''sigB''])) = [Some (JStr ''sigB'')] \<and>
   fst (fetchRecentTransactionSignatures (publicKeyOk example_world) ''wallet''
          (signatures_response [signature_entry ''sigB'', signature_entry ''sigA''])) =
     [Some (JStr ''sigB''), Some (JStr ''sigA'')] \<and>
   dispatched (ws_run V2 example_world (Some ''key'') ''wallet'' (trackWallet (Some ''key''))
     [WsMessage (JsonText account_notification) (signatures_response [signature_entry ''sigB'']),
      WsMessage (JsonText account_notification)
        (signatures_response [signature_entry ''sigB'', signature_entry ''sigA''])]) =
     dispatched (trackWallet (Some ''key'')) @ [Some (JStr ''sigB''), Some (JStr ''sigB'')]"
proof -
  have n: "notifies V2 (JsonText account_notification)"
    by code_simp
  have f1: "fst (fetchRecentTransactionSignatures (publicKeyOk example_world) ''wallet''
              (signatures_response [signature_entry ''sigB''])) = [Some (JStr ''sigB'')]"
    by code_simp
  have f2: "fst (fetchRecentTransactionSignatures (publicKeyOk example_world) ''wallet''
              (signatures_response [signature_entry ''sigB'', signature_entry ''sigA''])) =
            [Some (JStr ''sigB''), Some (JStr ''sigA'')]"
    by code_simp
  note t = same_signature_dispatched_once_per_notification [OF n n f1 f2]
  from n f1 f2 t show ?thesis by blast
qed

section \<open>Malformed messages\<close>

lemma fetchRecent_no_connection_effect:
  "\<not> list_ex connection_effect (snd (fetchRecentTransactionSignatures pk wallet r))"
  by (simp add: fetchRecentTransactionSignatures_def split: sum.splits)

lemma render_effect_not_connection: "list_all render_effect es \<Longrightarrow> \<not> list_ex connection_effect es"
  by (induction es) (auto simp: render_effect_def)

lemma account_updated_no_connection_effect:
  "account_updated v m = Inr printed \<Longrightarrow> \<not> list_ex connection_effect printed"
  by (auto simp: account_updated_def bindE_def split: variant.splits sum.splits)

lemma track_message_no_connection_effect:
  "\<not> list_ex connection_effect
       (effects (on_message v pk wallet (track_callback v w) d r))"
  using fetchRecent_no_connection_effect [of pk wallet r]
    render_effect_not_connection [OF parseTransaction_render]
  by (auto simp: on_message_def message_try_def done_with_def throw_after_def Let_def
      track_callback_def
      split: ws_data.splits sum.splits prod.splits option.splits
      dest: account_updated_no_connection_effect)

lemma effects_unparseable:
  "effects (on_message v pk wallet cb Unparseable r) =
     [ConsoleError (WebSocketMessageProcessingError SyntaxError)]"
  by (simp add: on_message_def message_try_def throw_after_def)

lemma effects_null:
  "effects (on_message v pk wallet cb (JsonText JNull) r) =
     [ConsoleError (WebSocketMessageProcessingError TypeError)]"
  by (simp add: on_message_def message_try_def throw_after_def)

lemma effects_other_method:
  "m \<noteq> JNull \<Longrightarrow> member (Some m) ''method'' \<noteq> Inr (Some (JStr ''accountNotification'')) \<Longrightarrow>
   effects (on_message v pk wallet cb (JsonText m) r) = []"
  by (cases m) (auto simp: on_message_def message_try_def done_with_def throw_after_def)

text \<open>
  C5, as the specification states it: every malformed message (not parseable, or of
  unexpected shape) is logged as an error. The message below is parseable, its
  \<open>method\<close> is a number; the handler of either variant ignores it and logs nothing.
\<close>

theorem unexpected_shape_not_logged_counterexample:
  "\<not> list_ex error_logged
       (effects (on_message V1 (publicKeyOk example_world) ''wallet''
          (track_callback V1 example_world) (JsonText odd_message)
          (signatures_response [signature_entry ''sigB'']))) \<and>
   \<not> list_ex error_logged
       (effects (on_message V2 (publicKeyOk example_world) ''wallet''
          (track_callback V2 example_world) (JsonText odd_message)
          (signatures_response [signature_entry ''sigB''])))"
  by code_simp

text \<open>
  C5, amended: for every inbound message nothing is thrown out of the handler, the
  socket and the reconnect timers stay as they were, and the handler (with the callback
  of \<open>trackWallet\<close>) does nothing to a connection, a timer or the process. A message
  that is not parseable, or is the JSON \<open>null\<close>, is logged as an error; a parseable
  message whose \<open>method\<close> is not \<open>accountNotification\<close> is ignored without a log line.
\<close>

theorem message_handler_stays_subscribed:
  "thrown (on_message v pk wallet cb d r) = None \<and>
   readyState (ws_step v w key wallet s (WsMessage d r)) = readyState s \<and>
   sockets (ws_step v w key wallet s (WsMessage d r)) = sockets s \<and>
   reconnectTimers (ws_step v w key wallet s (WsMessage d r)) = reconnectTimers s \<and>
   \<not> list_ex connection_effect
        (effects (on_message v (publicKeyOk w) wallet (track_callback v w) d r)) \<and>
   effects (on_message v pk wallet cb Unparseable r) =
     [ConsoleError (WebSocketMessageProcessingError SyntaxError)] \<and>
   effects (on_message v pk wallet cb (JsonText JNull) r) =
     [ConsoleError (WebSocketMessageProcessingError TypeError)] \<and>
   (m \<noteq> JNull \<and> member (Some m) ''method'' \<noteq> Inr (Some (JStr ''accountNotification'')) \<longrightarrow>
      effects (on_message v pk wallet cb (JsonText m) r) = [])"
  by (simp add: thrown_on_message track_message_no_connection_effect effects_unparseable
      effects_null effects_other_method ws_step_def Let_def)

theorem message_handler_stays_subscribed_witness:
  "subscription_reply \<noteq> JNull \<and>
   member (Some subscription_reply) ''method'' \<noteq> Inr (Some (JStr ''accountNotification'')) \<and>
   effects (on_message V1 (\<lambda>wallet. True) ''wallet'' (track_callback V1 example_world)
      (JsonText subscription_reply) NetworkError) = [] \<and>
   thrown (on_message V1 (\<lambda>wallet. True) ''wallet'' (track_callback V1 example_world)
      Unparseable NetworkError) = None \<and>
   readyState (ws_step V1 example_world (Some ''key'') ''wallet''
      (on_open ''wallet'' (trackWallet (Some ''key''))) (WsMessage Unparseable NetworkError)) = OPEN"
proof -
  have a: "subscription_reply \<noteq> JNull"
    by (simp add: subscription_reply_def)
  have b: "member (Some subscription_reply) ''method'' \<noteq> Inr (Some (JStr ''accountNotification''))"
    by (simp add: subscription_reply_def)
  note t = message_handler_stays_subscribed
             [where v = V1 and pk = "\<lambda>wallet. True" and wallet = "''wallet''"
                and cb = "track_callback V1 example_world" and d = Unparseable
                and r = NetworkError and w = example_world and key = "Some ''key''"
                and s = "on_open ''wallet'' (trackWallet (Some ''key''))"
                and m = subscription_reply]
  have o: "readyState (on_open ''wallet'' (trackWallet (Some ''key''))) = OPEN"
    by (simp add: on_open_def)
  from t a b o show ?thesis by simp
qed

section \<open>The signature fetcher\<close>

lemma map_signature_no_null:
  "JNull \<notin> set txs \<Longrightarrow>
   map_signature txs = Inr (map (\<lambda>tx. opt_member (Some tx) ''signature'') txs)"
proof (induction txs)
  case Nil
  show ?case by simp
next
  case (Cons tx txs)
  then show ?case by (cases tx) auto
qed

lemma map_signature_null: "JNull \<in> set txs \<Longrightarrow> map_signature txs = Inl TypeError"
proof (induction txs)
  case Nil
  then show ?case by simp
next
  case (Cons tx txs)
  then show ?case by (cases tx) (auto split: sum.splits)
qed

lemma result_entries_Some:
  "result_entries resp = Some txs \<Longrightarrow>
   bindE (await_json resp) (\<lambda>body. bindE (member (Some body) ''result'') result_map_signature) =
     map_signature txs"
  by (auto simp: result_entries_def await_json_def bindE_def
      split: http_result.splits sum.splits option.splits json.splits)

lemma result_entries_None:
  "result_entries resp = None \<Longrightarrow>
   \<exists>e. bindE (await_json resp)
          (\<lambda>body. bindE (member (Some body) ''result'') result_map_signature) = Inl e"
  by (auto simp: result_entries_def await_json_def bindE_def
      split: http_result.splits sum.splits option.splits json.splits)

lemma fetchRecent_invalid_wallet:
  "\<not> pk wallet \<Longrightarrow>
   fetchRecentTransactionSignatures pk wallet resp =
     ([], [ConsoleError (ErrorFetchingRecentSignatures InvalidPublicKey)])"
  by (simp add: fetchRecentTransactionSignatures_def)

lemma fetchRecent_failure:
  assumes "pk wallet"
    and "provider_failure resp \<or> (\<exists>txs. result_entries resp = Some txs \<and> JNull \<in> set txs)"
  shows "\<exists>e. fetchRecentTransactionSignatures pk wallet resp =
           ([], [HttpPost (GetSignaturesForAddress wallet 1),
                 ConsoleError (ErrorFetchingRecentSignatures e)])"
proof -
  from assms(2) have
    "\<exists>e. bindE (await_json resp)
            (\<lambda>body. bindE (member (Some body) ''result'') result_map_signature) = Inl e"
  proof
    assume "provider_failure resp"
    then show ?thesis
      by (simp add: provider_failure_def result_entries_None)
  next
    assume "\<exists>txs. result_entries resp = Some txs \<and> JNull \<in> set txs"
    then show ?thesis
      by (auto simp: result_entries_Some map_signature_null)
  qed
  with assms(1) show ?thesis
    by (auto simp: fetchRecentTransactionSignatures_def)
qed

lemma fetchRecent_success:
  assumes "pk wallet" and "result_entries resp = Some txs" and "JNull \<notin> set txs"
  shows "fetchRecentTransactionSignatures pk wallet resp =
           (map (\<lambda>tx. opt_member (Some tx) ''signature'') txs,
            [HttpPost (GetSignaturesForAddress wallet 1)])"
  using assms
  by (simp add: fetchRecentTransactionSignatures_def result_entries_Some map_signature_no_null)

text \<open>
  C6, as the specification states it: on success the fetcher returns at most as many
  signatures as the limit it requested. The fetcher requests limit 1 and returns one
  signature for every entry of the array it is sent, without cutting the array: sent
  three entries, it returns three signatures.
\<close>

theorem fetcher_returns_more_than_limit_counterexample:
  "requested_limits
     (snd (fetchRecentTransactionSignatures (publicKeyOk example_world) ''wallet''
        (signatures_response
           [signature_entry ''sigC'', signature_entry ''sigB'', signature_entry ''sigA'']))) = [1] \<and>
   \<not> length
       (fst (fetchRecentTransactionSignatures (publicKeyOk example_world) ''wallet''
          (signatures_response
             [signature_entry ''sigC'', signature_entry ''sigB'', signature_entry ''sigA''])))
     \<le> 1"
  by code_simp

text \<open>
  C6, amended. For every wallet and every answer of the provider, nothing is thrown to
  the caller (the result is a value in every case), and exactly one of three things
  happens. A wallet that \<open>PublicKey\<close> rejects gives the empty sequence and a logged
  error, with no request sent. A failed request (network error, a body that is not
  JSON, an error reply or any body with no array under \<open>result\<close>), and an array that
  holds a null entry, give the empty sequence and a logged error after the request.
  Any other array gives one value per entry, in the provider's order: the \<open>signature\<close>
  member of the entry (\<open>undefined\<close> where the entry has none). The request carries
  limit 1 and the result is not cut to it: it is as long as the array.
\<close>

theorem signature_fetcher_swallows_failure_and_keeps_order:
  "(\<not> pk wallet \<longrightarrow>
      fetchRecentTransactionSignatures pk wallet resp =
        ([], [ConsoleError (ErrorFetchingRecentSignatures InvalidPublicKey)])) \<and>
   (pk wallet \<and>
    (provider_failure resp \<or> (\<exists>txs. result_entries resp = Some txs \<and> JNull \<in> set txs)) \<longrightarrow>
      (\<exists>e. fetchRecentTransactionSignatures pk wallet resp =
         ([], [HttpPost (GetSignaturesForAddress wallet 1),
               ConsoleError (ErrorFetchingRecentSignatures e)]))) \<and>
   (pk wallet \<and> result_entries resp = Some txs \<and> JNull \<notin> set txs \<longrightarrow>
      fetchRecentTransactionSignatures pk wallet resp =
        (map (\<lambda>tx. opt_member (Some tx) ''signature'') txs,
         [HttpPost (GetSignaturesForAddress wallet 1)]) \<and>
      length (fst (fetchRecentTransactionSignatures pk wallet resp)) = length txs)"
  using fetchRecent_invalid_wallet [of pk wallet resp] fetchRecent_failure [of pk wallet resp]
    fetchRecent_success [of pk wallet resp txs]
  by auto

theorem signature_fetcher_swallows_failure_and_keeps_order_witness:
  "provider_failure error_reply \<and>
   fst (fetchRecentTransactionSignatures (\<lambda>wallet. True) ''wallet'' error_reply) = [] \<and>
   list_ex error_logged
     (snd (fetchRecentTransactionSignatures (\<lambda>wallet. True) ''wallet'' error_reply)) \<and>
   result_entries (signatures_response [signature_entry ''sigB'', JNull]) =
     Some [signature_entry ''sigB'', JNull] \<and>
   fst (fetchRecentTransactionSignatures (\<lambda>wallet. True) ''wallet''
          (signatures_response [signature_entry ''sigB'', JNull])) = [] \<and>
   fetchRecentTransactionSignatures (\<lambda>wallet. False) ''wallet'' NetworkError =
     ([], [ConsoleError (ErrorFetchingRecentSignatures InvalidPublicKey)]) \<and>
   result_entries (signatures_response [signature_entry ''sigB'', JObj []]) =
     Some [signature_entry ''sigB'', JObj []] \<and>
   fetchRecentTransactionSignatures (\<lambda>wallet. True) ''wallet''
       (signatures_response [signature_entry ''sigB'', JObj []]) =
     ([Some (JStr ''sigB''), None], [HttpPost (GetSignaturesForAddress ''wallet'' 1)])"
proof -
  let ?pk = "\<lambda>wallet::string. True"
  have a: "provider_failure error_reply"
    by (simp add: provider_failure_def result_entries_def error_reply_def)
  have b: "result_entries (signatures_response [signature_entry ''sigB'', JNull]) =
             Some [signature_entry ''sigB'', JNull]"
    by (simp add: result_entries_def signatures_response_def)
  have c: "result_entries (signatures_response [signature_entry ''sigB'', JObj []]) =
             Some [signature_entry ''sigB'', JObj []]"
    by (simp add: result_entries_def signatures_response_def)
  have d: "JNull \<notin> set [signature_entry ''sigB'', JObj []]"
    by (simp add: signature_entry_def)
  note t1 = signature_fetcher_swallows_failure_and_keeps_order
              [where pk = ?pk and wallet = "''wallet''" and resp = error_reply and txs = "[]"]
  note t2 = signature_fetcher_swallows_failure_and_keeps_order
              [where pk = ?pk and wallet = "''wallet''"
                 and resp = "signatures_response [signature_entry ''sigB'', JNull]" and txs = "[]"]
  note t3 = signature_fetcher_swallows_failure_and_keeps_order
              [where pk = "\<lambda>wallet::string. False" and wallet = "''wallet''" and resp = NetworkError and txs = "[]"]
  note t4 = signature_fetcher_swallows_failure_and_keeps_order
              [where pk = ?pk and wallet = "''wallet''"
                 and resp = "signatures_response [signature_entry ''sigB'', JObj []]"
                 and txs = "[signature_entry ''sigB'', JObj []]"]
  from t1 a have f1:
    "fst (fetchRecentTransactionSignatures ?pk ''wallet'' error_reply) = [] \<and>
     list_ex error_logged (snd (fetchRecentTransactionSignatures ?pk ''wallet'' error_reply))"
    by auto
  from t2 b have f2:
    "fst (fetchRecentTransactionSignatures ?pk ''wallet''
            (signatures_response [signature_entry ''sigB'', JNull])) = []"
    by auto
  from t3 have f3:
    "fetchRecentTransactionSignatures (\<lambda>wallet. False) ''wallet'' NetworkError =
       ([], [ConsoleError (ErrorFetchingRecentSignatures InvalidPublicKey)])"
    by simp
  from t4 c d have f4:
    "fetchRecentTransactionSignatures ?pk ''wallet''
         (signatures_response [signature_entry ''sigB'', JObj []]) =
       ([Some (JStr ''sigB''), None], [HttpPost (GetSignaturesForAddress ''wallet'' 1)])"
    by (simp add: signature_entry_def)
  from a b c f1 f2 f3 f4 show ?thesis
    by blast
qed

section \<open>The fetch command\<close>

lemma requested_limits_append [simp]:
  "requested_limits (xs @ ys) = requested_limits xs @ requested_limits ys"
  by (simp add: requested_limits_def)

lemma requested_limits_Nil [simp]: "requested_limits [] = []"
  by (simp add: requested_limits_def)

lemma requested_limits_Cons [simp]:
  "requested_limits (e # es) = limit_of e @ requested_limits es"
  by (simp add: requested_limits_def)


lemma requested_limits_fetch_failed [simp]: "requested_limits (fetch_failed e) = []"
  by (simp add: fetch_failed_def limit_of_def)



lemma render_loop_concat:
  "render_loop v w txs =
     concat (map (\<lambda>tx. parseTransaction v w (opt_member (Some tx) ''signature''))
               (takeWhile (\<lambda>tx. tx \<noteq> JNull) txs))
     @ (if JNull \<in> set txs then fetch_failed TypeError else [])"
proof (induction txs)
  case Nil
  show ?case by simp
next
  case (Cons tx txs)
  then show ?case by (cases tx) auto
qed

lemma fetchTransactions_array:
  assumes "publicKeyOk w wallet"
    and "signaturesFor w wallet limit = JsonBody (JObj kvs)"
    and "map_of kvs ''result'' = Some (JArr txs)"
    and "txs \<noteq> []"
  shows "fetchTransactions v w wallet limit =
           [SpinnerStart FetchingTransactions,
            HttpPost (GetSignaturesForAddress wallet limit),
            SpinnerSucceed (FetchedTransactions (Some (JNum (of_nat (length txs)))))]
           @ render_loop v w txs"
  using assms by (simp add: fetchTransactions_def await_json_def bindE_def)




lemma mark_of_simps [simp]:
  "mark_of v (SpinnerStart ParsingTransaction) = [Begins]"
  "mark_of v (ConsoleError (InvalidSignatureReceived j)) = [Begins, Ends]"
  "mark_of v (ConsoleError (ThrownError x)) = [Ends]"
  "mark_of v (SpinnerFail (TransactionNotFound s)) = [Ends]"
  "mark_of v (SpinnerFail (ErrorParsingTransaction s)) = []"
  "mark_of v (SpinnerInfo (SkippingLowValueTransaction s)) = [Ends]"
  "mark_of V1 (SpinnerSucceed TransactionParsedSuccessfully) = [Ends]"
  "mark_of V2 (SpinnerSucceed TransactionParsedSuccessfully) = []"
  "mark_of V2 (ConsoleLog (TransactionBox b)) = [Ends]"
  "mark_of v (HttpPost c) = []"
  "mark_of v DexParseTrades = []"
  by (simp_all add: mark_of_def)

lemma lookup_of_simps [simp]:
  "lookup_of (HttpPost (GetParsedTransaction s)) = [s]"
  "lookup_of (ConsoleError l) = []"
  "lookup_of (ConsoleLog l) = []"
  "lookup_of (SpinnerStart p) = []"
  "lookup_of (SpinnerFail p) = []"
  "lookup_of (SpinnerInfo p) = []"
  "lookup_of (SpinnerSucceed p) = []"
  "lookup_of DexParseTrades = []"
  by (simp_all add: lookup_of_def)

lemma marks_simps [simp]:
  "marks v [] = []"
  "marks v (e # es) = mark_of v e @ marks v es"
  "marks v (xs @ ys) = marks v xs @ marks v ys"
  by (simp_all add: marks_def)

lemma lookups_simps [simp]:
  "lookups [] = []"
  "lookups (e # es) = lookup_of e @ lookups es"
  "lookups (xs @ ys) = lookups xs @ lookups ys"
  by (simp_all add: lookups_def)

lemma inner_quiet: "list_all (inner_effect v) es \<Longrightarrow> marks v es = [] \<and> lookups es = []"
  by (induction es) (auto simp: inner_effect_def)

lemma inner_simps [simp]:
  "inner_effect v (HttpPost (GetAsset a))"
  "inner_effect v (ConsoleError (ErrorFetchingAssetInfo a e))"
  "inner_effect v (ConsoleError (ErrorDownloadingImage u))"
  "inner_effect v (ConsoleLog (TransactionCard d))"
  "inner_effect v DexParseTrades"
  by (simp_all add: inner_effect_def mark_of_def lookup_of_def)

lemma asset_settled_inner: "asset_settled w a = (info, es) \<Longrightarrow> list_all (inner_effect v) es"
  by (auto simp: asset_settled_def split: sum.splits)

lemma fetchAssetInfo_inner: "fetchAssetInfo w a = (info, es) \<Longrightarrow> list_all (inner_effect v) es"
  by (auto simp: fetchAssetInfo_def split: prod.splits dest: asset_settled_inner)

lemma settle_order_inner:
  "list_all (inner_effect v) a \<Longrightarrow> list_all (inner_effect v) b \<Longrightarrow>
   list_all (inner_effect v) (settle_order f a b)"
  by (simp add: settle_order_def)

lemma downloadAndCacheImage_inner:
  "list_all (inner_effect v) (snd (downloadAndCacheImage w url))"
  by (simp add: downloadAndCacheImage_def split: option.splits)

lemma trade_lookups_inner: "trade_lookups w t = (infos, es) \<Longrightarrow> list_all (inner_effect v) es"
  by (auto simp: trade_lookups_def split: prod.splits
      intro!: settle_order_inner downloadAndCacheImage_inner dest: asset_settled_inner)

lemma trade_cards_inner: "trade_cards w s tx m ts = (es, r) \<Longrightarrow> list_all (inner_effect v) es"
proof (induction ts arbitrary: es r)
  case Nil
  then show ?case by simp
next
  case (Cons t ts)
  then show ?case
    by (auto simp: Let_def split: prod.splits option.splits dest: trade_lookups_inner)
qed

lemma trade_lines_inner:
  "trade_lines w ty acc ts = (es, r) \<Longrightarrow> list_all (inner_effect v) es"
proof (induction ts arbitrary: ty acc es r)
  case Nil
  then show ?case by simp
next
  case (Cons t ts)
  then show ?case
    by (auto simp: Let_def split: prod.splits sum.splits if_splits dest: fetchAssetInfo_inner)
qed

lemma parse_failed_marks [simp]:
  "marks v (parse_failed s e) = [Ends]" "lookups (parse_failed s e) = []"
  "parse_failed s e \<noteq> []" "mark_of v (last (parse_failed s e)) = [Ends]"
  by (simp_all add: parse_failed_def)

lemma render_v1_marks:
  "marks V1 (render_v1 w s tx m) = [Ends] \<and> lookups (render_v1 w s tx m) = [] \<and>
   mark_of V1 (last (render_v1 w s tx m)) = [Ends]"
proof (cases "parseTrades w tx")
  case (Inl e)
  then show ?thesis
    by (simp add: render_v1_def)
next
  case (Inr trades)
  obtain es r where c: "trade_cards w s tx m trades = (es, r)"
    by (cases "trade_cards w s tx m trades")
  note q = inner_quiet [OF trade_cards_inner [OF c], of V1]
  from Inr c q show ?thesis
    by (cases r) (simp_all add: render_v1_def)
qed

lemma render_v2_marks:
  "marks V2 (render_v2 w s tx m) = [Ends] \<and> lookups (render_v2 w s tx m) = [] \<and>
   mark_of V2 (last (render_v2 w s tx m)) = [Ends]"
proof (cases "parseTrades w tx")
  case (Inl e)
  then show ?thesis
    by (simp add: render_v2_def)
next
  case (Inr trades)
  obtain es r where c: "trade_lines w ''Unknown'' [] trades = (es, r)"
    by (cases "trade_lines w ''Unknown'' [] trades")
  note q = inner_quiet [OF trade_lines_inner [OF c], of V2]
  from Inr c q show ?thesis
    by (cases r) (auto simp: render_v2_def)
qed

lemma parseTransaction_marks:
  "parseTransaction v w signature \<noteq> [] \<and>
   marks v (parseTransaction v w signature) = [Begins, Ends] \<and>
   lookups (parseTransaction v w signature) = looked_up signature \<and>
   Begins \<in> set (mark_of v (hd (parseTransaction v w signature))) \<and>
   Ends \<in> set (mark_of v (last (parseTransaction v w signature)))"
proof (cases "truthy signature")
  case False
  then show ?thesis
    by (cases signature) (simp_all add: parseTransaction_def looked_up_def)
next
  case True
  then obtain s where s: "signature = Some s"
    by (cases signature) auto
  have n1: "render_v1 w s tx m \<noteq> []" for tx m
    by (simp add: render_v1_def)
  have n2: "render_v2 w s tx m \<noteq> []" for tx m
    by (simp add: render_v2_def)
  from True s render_v1_marks [of w s] render_v2_marks [of w s] n1 n2 show ?thesis
    by (cases v)
       (auto simp: parseTransaction_def looked_up_def split: sum.splits option.splits)
qed

lemma fetch_failed_marks: "lookups (fetch_failed e) = []"
  by (simp add: fetch_failed_def)

lemma render_loop_marks:
  "JNull \<notin> set txs \<Longrightarrow>
   marks v (render_loop v w txs) = concat (replicate (length txs) [Begins, Ends]) \<and>
   lookups (render_loop v w txs) =
     concat (map (\<lambda>tx. looked_up (opt_member (Some tx) ''signature'')) txs)"
proof (induction txs)
  case Nil
  show ?case by simp
next
  case (Cons tx txs)
  with parseTransaction_marks [of v w "opt_member (Some tx) ''signature''"] show ?case
    by (cases tx) auto
qed

text \<open>
  C8. Within a fetch run the renders happen one at a time, in the order of the
  provider's array. Every render, whatever its signature and outcome, does something,
  begins with its first action and ends with its last, with no other begin or end
  between, and asks the provider for its own signature only. The actions of the loop
  are the complete actions of the render of the first entry, then those of the second,
  and so on (a null entry ends the loop in the \<open>catch\<close>, after the entries before it).
  So in the actions of the whole run begins and ends alternate, one pair per entry: no
  render begins before the one before it has reported its end, and the signatures are
  looked up in the order the provider returned them. (Two calls awaited together do
  not behave so: of the two asset lookups of a trade in the first variant, both
  requests go out before either lookup ends.)
\<close>

theorem fetch_renders_one_signature_at_a_time:
  "(parseTransaction v w signature \<noteq> [] \<and>
    marks v (parseTransaction v w signature) = [Begins, Ends] \<and>
    Begins \<in> set (mark_of v (hd (parseTransaction v w signature))) \<and>
    Ends \<in> set (mark_of v (last (parseTransaction v w signature))) \<and>
    lookups (parseTransaction v w signature) = looked_up signature) \<and>
   render_loop v w txs =
     concat (map (\<lambda>tx. parseTransaction v w (opt_member (Some tx) ''signature''))
               (takeWhile (\<lambda>tx. tx \<noteq> JNull) txs))
     @ (if JNull \<in> set txs then fetch_failed TypeError else []) \<and>
   (publicKeyOk w wallet \<and> signaturesFor w wallet limit = JsonBody (JObj kvs) \<and>
    map_of kvs ''result'' = Some (JArr txs) \<and> txs \<noteq> [] \<and> JNull \<notin> set txs \<longrightarrow>
      fetchTransactions v w wallet limit =
        [SpinnerStart FetchingTransactions,
         HttpPost (GetSignaturesForAddress wallet limit),
         SpinnerSucceed (FetchedTransactions (Some (JNum (of_nat (length txs)))))]
        @ concat (map (\<lambda>tx. parseTransaction v w (opt_member (Some tx) ''signature'')) txs) \<and>
      marks v (fetchTransactions v w wallet limit) =
        concat (replicate (length txs) [Begins, Ends]) \<and>
      lookups (fetchTransactions v w wallet limit) =
        concat (map (\<lambda>tx. looked_up (opt_member (Some tx) ''signature'')) txs))"
proof -
  have a: "JNull \<notin> set txs \<Longrightarrow> takeWhile (\<lambda>tx. tx \<noteq> JNull) txs = txs"
    by (induction txs) auto
  have h: "marks v [SpinnerStart FetchingTransactions,
                    HttpPost (GetSignaturesForAddress wallet limit),
                    SpinnerSucceed (FetchedTransactions (Some (JNum (of_nat (length txs)))))] = []
           \<and> lookups [SpinnerStart FetchingTransactions,
                    HttpPost (GetSignaturesForAddress wallet limit),
                    SpinnerSucceed (FetchedTransactions (Some (JNum (of_nat (length txs)))))] = []"
    by (simp add: mark_of_def lookup_of_def)
  note p = parseTransaction_marks [of v w signature]
  have f: "publicKeyOk w wallet \<and> signaturesFor w wallet limit = JsonBody (JObj kvs) \<and>
           map_of kvs ''result'' = Some (JArr txs) \<and> txs \<noteq> [] \<and> JNull \<notin> set txs \<Longrightarrow>
           fetchTransactions v w wallet limit =
             [SpinnerStart FetchingTransactions,
              HttpPost (GetSignaturesForAddress wallet limit),
              SpinnerSucceed (FetchedTransactions (Some (JNum (of_nat (length txs)))))]
             @ render_loop v w txs"
    using fetchTransactions_array [of w wallet limit kvs txs v] by blast
  from p render_loop_concat [of v w txs] f h render_loop_marks [of txs v w] a show ?thesis
    by (simp only: marks_simps lookups_simps) auto
qed

theorem fetch_renders_one_signature_at_a_time_witness:
  "publicKeyOk example_world ''wallet'' \<and>
   marks V1 (fetchTransactions V1 example_world ''wallet'' 5) = [Begins, Ends, Begins, Ends] \<and>
   lookups (fetchTransactions V1 example_world ''wallet'' 5) = [JStr ''sigA'', JStr ''sigB''] \<and>
   marks V2 (fetchTransactions V2 example_world ''wallet'' 5) = [Begins, Ends, Begins, Ends] \<and>
   fetchTransactions V2 example_world ''wallet'' 5 =
     [SpinnerStart FetchingTransactions,
      HttpPost (GetSignaturesForAddress ''wallet'' 5),
      SpinnerSucceed (FetchedTransactions (Some (JNum 2)))]
     @ parseTransaction V2 example_world (Some (JStr ''sigA''))
     @ [SpinnerStart ParsingTransaction,
        HttpPost (GetParsedTransaction (JStr ''sigB'')),
        SpinnerInfo (SkippingLowValueTransaction (JStr ''sigB''))] \<and>
   hd (parseTransaction V2 example_world (Some (JStr ''sigA''))) =
     SpinnerStart ParsingTransaction \<and>
   boxes [last (parseTransaction V2 example_world (Some (JStr ''sigA'')))] \<noteq> []"
proof -
  let ?kvs = "[(''jsonrpc'', JStr ''2.0''),
               (''result'', JArr [signature_entry ''sigA'', signature_entry ''sigB''])]"
  let ?txs = "[signature_entry ''sigA'', signature_entry ''sigB'']"
  have pk: "publicKeyOk example_world ''wallet''"
    by (simp add: example_world_def)
  have r: "signaturesFor example_world ''wallet'' 5 = JsonBody (JObj ?kvs)"
    by (simp add: example_world_def signatures_response_def)
  have m: "map_of ?kvs ''result'' = Some (JArr ?txs)"
    by simp
  have n: "?txs \<noteq> [] \<and> JNull \<notin> set ?txs"
    by (simp add: signature_entry_def)
  have b: "parseTransaction V2 example_world (Some (JStr ''sigB'')) =
             [SpinnerStart ParsingTransaction,
              HttpPost (GetParsedTransaction (JStr ''sigB'')),
              SpinnerInfo (SkippingLowValueTransaction (JStr ''sigB''))]"
    by code_simp
  have ha: "hd (parseTransaction V2 example_world (Some (JStr ''sigA''))) =
              SpinnerStart ParsingTransaction"
    by code_simp
  have la: "boxes [last (parseTransaction V2 example_world (Some (JStr ''sigA'')))] \<noteq> []"
    by code_simp
  note t1 = fetch_renders_one_signature_at_a_time
             [where w = example_world and wallet = "''wallet''" and v = V1 and limit = 5
                and kvs = ?kvs and txs = ?txs and signature = None]
  note t2 = fetch_renders_one_signature_at_a_time
             [where w = example_world and wallet = "''wallet''" and v = V2 and limit = 5
                and kvs = ?kvs and txs = ?txs and signature = None]
  from t1 pk r m n have c1:
    "marks V1 (fetchTransactions V1 example_world ''wallet'' 5) =
       concat (replicate (length ?txs) [Begins, Ends]) \<and>
     lookups (fetchTransactions V1 example_world ''wallet'' 5) =
       concat (map (\<lambda>tx. looked_up (opt_member (Some tx) ''signature'')) ?txs)"
    by blast
  then have v1:
    "marks V1 (fetchTransactions V1 example_world ''wallet'' 5) = [Begins, Ends, Begins, Ends] \<and>
     lookups (fetchTransactions V1 example_world ''wallet'' 5) = [JStr ''sigA'', JStr ''sigB'']"
    by (simp add: signature_entry_def looked_up_def)
  from t2 pk r m n have c2:
    "marks V2 (fetchTransactions V2 example_world ''wallet'' 5) =
       concat (replicate (length ?txs) [Begins, Ends]) \<and>
     fetchTransactions V2 example_world ''wallet'' 5 =
       [SpinnerStart FetchingTransactions,
        HttpPost (GetSignaturesForAddress ''wallet'' 5),
        SpinnerSucceed (FetchedTransactions (Some (JNum (of_nat (length ?txs)))))]
       @ concat (map (\<lambda>tx. parseTransaction V2 example_world (opt_member (Some tx) ''signature''))
                   ?txs)"
    by blast
  from c2 [THEN conjunct1] have m2:
    "marks V2 (fetchTransactions V2 example_world ''wallet'' 5) = [Begins, Ends, Begins, Ends]"
    by simp
  from c2 [THEN conjunct2] have e2:
    "fetchTransactions V2 example_world ''wallet'' 5 =
       [SpinnerStart FetchingTransactions,
        HttpPost (GetSignaturesForAddress ''wallet'' 5),
        SpinnerSucceed (FetchedTransactions (Some (JNum 2)))]
       @ parseTransaction V2 example_world (Some (JStr ''sigA''))
       @ parseTransaction V2 example_world (Some (JStr ''sigB''))"
    by (simp add: signature_entry_def)
  from m2 e2 have v2:
    "marks V2 (fetchTransactions V2 example_world ''wallet'' 5) = [Begins, Ends, Begins, Ends] \<and>
     fetchTransactions V2 example_world ''wallet'' 5 =
       [SpinnerStart FetchingTransactions,
        HttpPost (GetSignaturesForAddress ''wallet'' 5),
        SpinnerSucceed (FetchedTransactions (Some (JNum 2)))]
       @ parseTransaction V2 example_world (Some (JStr ''sigA''))
       @ parseTransaction V2 example_world (Some (JStr ''sigB''))"
    by (rule conjI)
  from e2 b have e3:
    "fetchTransactions V2 example_world ''wallet'' 5 =
       [SpinnerStart FetchingTransactions,
        HttpPost (GetSignaturesForAddress ''wallet'' 5),
        SpinnerSucceed (FetchedTransactions (Some (JNum 2)))]
       @ parseTransaction V2 example_world (Some (JStr ''sigA''))
       @ [SpinnerStart ParsingTransaction,
          HttpPost (GetParsedTransaction (JStr ''sigB'')),
          SpinnerInfo (SkippingLowValueTransaction (JStr ''sigB''))]"
    by (simp only:)
  from pk v1 m2 e3 ha la show ?thesis
    by blast
qed

section \<open>The transaction renderer\<close>

lemma lamports_below_threshold: "lamports_to_sol n < MIN_SOL_AMOUNT \<longleftrightarrow> n < 1000000"
  by (simp add: lamports_to_sol_def MIN_SOL_AMOUNT_def field_simps)

text \<open>
  C7. A transaction that was found and whose fee, in SOL, is below \<open>MIN_SOL_AMOUNT\<close>
  is skipped in both variants: after the lookup the only action is the informational
  spinner line; the DEX parser is not called, no card and no box is printed, and nothing
  is reported as an error or a failure.
\<close>

theorem low_fee_transaction_is_skipped:
  assumes "truthy (Some s)" and "parsedTransaction w s = Inr (Some tx)"
    and "meta tx = Some m" and "lamports_to_sol (fee m) < MIN_SOL_AMOUNT"
  shows "parseTransaction v w (Some s) =
           [SpinnerStart ParsingTransaction, HttpPost (GetParsedTransaction s),
            SpinnerInfo (SkippingLowValueTransaction s)] \<and>
         DexParseTrades \<notin> set (parseTransaction v w (Some s)) \<and>
         cards (parseTransaction v w (Some s)) = [] \<and>
         boxes (parseTransaction v w (Some s)) = [] \<and>
         \<not> list_ex failure_reported (parseTransaction v w (Some s))"
  using assms
  by (simp add: parseTransaction_def cards_def card_of_def boxes_def box_of_def)

theorem low_fee_transaction_is_skipped_witness:
  "truthy (Some (JStr ''sigB'')) \<and>
   parsedTransaction example_world (JStr ''sigB'') = Inr (Some cheap_tx) \<and>
   meta cheap_tx = Some \<lparr>fee = 5000, err = False\<rparr> \<and>
   lamports_to_sol 5000 < MIN_SOL_AMOUNT \<and>
   parseTransaction V1 example_world (Some (JStr ''sigB'')) =
     [SpinnerStart ParsingTransaction, HttpPost (GetParsedTransaction (JStr ''sigB'')),
      SpinnerInfo (SkippingLowValueTransaction (JStr ''sigB''))]"
proof -
  have a: "truthy (Some (JStr ''sigB''))"
    by simp
  have b: "parsedTransaction example_world (JStr ''sigB'') = Inr (Some cheap_tx)"
    by (simp add: example_world_def)
  have c: "meta cheap_tx = Some \<lparr>fee = 5000, err = False\<rparr>"
    by (simp add: cheap_tx_def)
  have d: "lamports_to_sol (fee \<lparr>fee = 5000, err = False\<rparr>) < MIN_SOL_AMOUNT"
    by (simp add: lamports_below_threshold)
  note t = low_fee_transaction_is_skipped [OF a b c d, of V1]
  from a b c d t show ?thesis
    by simp
qed

lemma cards_Nil [simp]: "cards [] = []"
  by (simp add: cards_def)

lemma cards_Cons [simp]: "cards (e # es) = card_of e @ cards es"
  by (simp add: cards_def)

lemma cards_append [simp]: "cards (xs @ ys) = cards xs @ cards ys"
  by (simp add: cards_def)

lemma boxes_Nil [simp]: "boxes [] = []"
  by (simp add: boxes_def)

lemma boxes_Cons [simp]: "boxes (e # es) = box_of e @ boxes es"
  by (simp add: boxes_def)

lemma boxes_append [simp]: "boxes (xs @ ys) = boxes xs @ boxes ys"
  by (simp add: boxes_def)

lemma trade_types_append [simp]: "trade_types (xs @ ys) = trade_types xs @ trade_types ys"
  by (simp add: trade_types_def)

lemma trade_types_Nil [simp]: "trade_types [] = []"
  by (simp add: trade_types_def)

lemma trade_types_Cons [simp]: "trade_types (l # ls) = trade_type_of l @ trade_types ls"
  by (simp add: trade_types_def)

lemma asset_settled_prints_nothing:
  "asset_settled w a = (info, es) \<Longrightarrow> cards es = [] \<and> boxes es = []"
  by (auto simp: asset_settled_def card_of_def box_of_def split: sum.splits)

lemma fetchAssetInfo_prints_nothing:
  "fetchAssetInfo w a = (info, es) \<Longrightarrow> cards es = [] \<and> boxes es = []"
  by (auto simp: fetchAssetInfo_def card_of_def box_of_def split: prod.splits
      dest: asset_settled_prints_nothing)

lemma settle_order_prints_nothing:
  "cards a = [] \<Longrightarrow> cards b = [] \<Longrightarrow> cards (settle_order f a b) = []"
  by (simp add: settle_order_def)

lemma downloadAndCacheImage_prints_nothing:
  "cards (snd (downloadAndCacheImage w url)) = []"
  by (simp add: downloadAndCacheImage_def card_of_def split: option.splits)

lemma trade_lookups_prints_nothing:
  "trade_lookups w t = (infos, es) \<Longrightarrow> cards es = []"
  by (auto simp: trade_lookups_def card_of_def split: prod.splits
      intro!: settle_order_prints_nothing downloadAndCacheImage_prints_nothing
      dest: asset_settled_prints_nothing)

lemma parse_failed_prints_nothing [simp]:
  "cards (parse_failed s e) = []" "boxes (parse_failed s e) = []"
  by (simp_all add: parse_failed_def card_of_def box_of_def)

lemma trade_cards_classify:
  "trade_cards w s tx m ts = (es, r) \<Longrightarrow>
   map (\<lambda>c. (tokenMint (inputTokenData c), txType c)) (cards es) =
     map (\<lambda>t. (mint (inputToken t), if mint (inputToken t) = SOL_MINT then ''BUY'' else ''SELL''))
       (take (length (cards es)) ts) \<and>
   (r = None \<longrightarrow> length (cards es) = length ts)"
proof (induction ts arbitrary: es r)
  case Nil
  then show ?case by simp
next
  case (Cons t ts)
  obtain i1 i2 looked where a: "trade_lookups w t = ((i1, i2), looked)"
    by (cases "trade_lookups w t") auto
  note n = trade_lookups_prints_nothing [OF a]
  let ?d = "transaction_data w s tx m t i1 i2"
  show ?case
  proof (cases "cardLayoutError w ?d")
    case (Some e)
    with Cons.prems a n have "es = looked" and "r = Some e"
      by (simp_all add: Let_def)
    with n show ?thesis
      by simp
  next
    case None
    obtain es' r' where c: "trade_cards w s tx m ts = (es', r')"
      by (cases "trade_cards w s tx m ts")
    from Cons.IH [OF c] Cons.prems a c None n show ?thesis
      by (auto simp: Let_def card_of_def token_data_def transaction_data_def)
  qed
qed

lemma detail_if_no_trade_line [simp]:
  "trade_types (detail_if x NameDetail) = []"
  "trade_types (detail_if x SymbolDetail) = []"
  "trade_types (detail_if x MintDetail) = []"
  "trade_types (detail_if x ImageDetail) = []"
  "trade_types (detail_if x DecimalsDetail) = []"
  by (simp_all add: detail_if_def trade_type_of_def split: option.splits)

lemma getTokenDetails_no_trade_line:
  "getTokenDetails info = Inr ls \<Longrightarrow> trade_types ls = []"
  by (auto simp: getTokenDetails_def bindE_def Let_def trade_type_of_def
      split: if_splits sum.splits)

lemma fee_line_no_trade_line: "fee_line t = Inr l \<Longrightarrow> trade_type_of l = []"
  by (auto simp: fee_line_def bindE_def trade_type_of_def split: option.splits sum.splits)

lemma trade_type_of_simps [simp]:
  "trade_type_of (TradeLine a ty) = [ty]"
  "trade_type_of InputTokenHeader = []"
  "trade_type_of OutputTokenHeader = []"
  "trade_type_of (AmountLine f j) = []"
  "trade_type_of BlankLine = []"
  by (simp_all add: trade_type_of_def)

lemma trade_details_one_trade_line:
  "trade_details ty t i1 i2 = Inr ls \<Longrightarrow> trade_types ls = [ty]"
  by (auto simp: trade_details_def bindE_def getTokenDetails_no_trade_line
      fee_line_no_trade_line split: sum.splits)

lemma trade_lines_classify:
  "trade_lines w ty acc ts = (es, Inr (ty', details)) \<Longrightarrow>
   trade_types details =
     trade_types acc @ map (\<lambda>t. if mint (inputToken t) = SOL_MINT then ''Buy'' else ''Sell'') ts \<and>
   boxes es = [] \<and> cards es = []"
proof (induction ts arbitrary: ty acc es)
  case Nil
  then show ?case by simp
next
  case (Cons t ts)
  obtain i1 e1 where a: "fetchAssetInfo w (mint (inputToken t)) = (i1, e1)"
    by (cases "fetchAssetInfo w (mint (inputToken t))")
  obtain i2 e2 where b: "fetchAssetInfo w (mint (outputToken t)) = (i2, e2)"
    by (cases "fetchAssetInfo w (mint (outputToken t))")
  note n1 = fetchAssetInfo_prints_nothing [OF a]
  note n2 = fetchAssetInfo_prints_nothing [OF b]
  let ?ty = "if mint (inputToken t) = SOL_MINT then ''Buy'' else ''Sell''"
  show ?case
  proof (cases "trade_details ?ty t i1 i2")
    case (Inl e)
    with Cons.prems a b show ?thesis
      by (auto simp: Let_def)
  next
    case (Inr ls)
    obtain es' r' where c: "trade_lines w ?ty (acc @ ls) ts = (es', r')"
      by (cases "trade_lines w ?ty (acc @ ls) ts")
    with Cons.prems a b Inr have r': "r' = Inr (ty', details)" and es: "es = e1 @ e2 @ es'"
      by (auto simp: Let_def)
    from Cons.IH [of ?ty "acc @ ls" es'] c r'
    have "trade_types details =
            trade_types (acc @ ls) @
            map (\<lambda>t. if mint (inputToken t) = SOL_MINT then ''Buy'' else ''Sell'') ts \<and>
          boxes es' = [] \<and> cards es' = []"
      by simp
    with trade_details_one_trade_line [OF Inr] es n1 n2 show ?thesis
      by simp
  qed
qed

lemma trade_lines_no_box:
  "trade_lines w ty acc ts = (es, r) \<Longrightarrow> boxes es = []"
proof (induction ts arbitrary: ty acc es r)
  case Nil
  then show ?case by simp
next
  case (Cons t ts)
  then show ?case
    by (auto simp: Let_def split: prod.splits sum.splits if_splits
        dest: fetchAssetInfo_prints_nothing)
qed

lemma cards_render_v1:
  assumes "parseTrades w tx = Inr trades"
  shows "map (\<lambda>c. (tokenMint (inputTokenData c), txType c)) (cards (render_v1 w s tx m)) =
           map (\<lambda>t. (mint (inputToken t),
                      if mint (inputToken t) = SOL_MINT then ''BUY'' else ''SELL''))
             (take (length (cards (render_v1 w s tx m))) trades) \<and>
         ((\<forall>d. cardLayoutError w d = None) \<longrightarrow> length (cards (render_v1 w s tx m)) = length trades)"
proof -
  obtain es r where c: "trade_cards w s tx m trades = (es, r)"
    by (cases "trade_cards w s tx m trades")
  have k: "cards (render_v1 w s tx m) = cards es"
    using assms c by (cases r) (simp_all add: render_v1_def card_of_def)
  have n: "(\<forall>d. cardLayoutError w d = None) \<Longrightarrow> trade_cards w s tx m ts = (es', r') \<Longrightarrow> r' = None"
    for ts es' r'
    by (induction ts arbitrary: es' r') (auto simp: Let_def split: prod.splits)
  from trade_cards_classify [OF c] k n [OF _ c] show ?thesis
    by auto
qed

lemma boxes_render_v2:
  assumes "parseTrades w tx = Inr trades"
  shows "\<forall>b \<in> set (boxes (render_v2 w s tx m)).
           trade_types (transactionDetails b) =
             map (\<lambda>t. if mint (inputToken t) = SOL_MINT then ''Buy'' else ''Sell'') trades"
proof -
  obtain es r where c: "trade_lines w ''Unknown'' [] trades = (es, r)"
    by (cases "trade_lines w ''Unknown'' [] trades")
  show ?thesis
  proof (cases r)
    case (Inl e)
    with assms c trade_lines_no_box [OF c] show ?thesis
      by (simp add: render_v2_def box_of_def)
  next
    case (Inr p)
    obtain ty details where p: "p = (ty, details)"
      by (cases p)
    from c Inr p have "trade_lines w ''Unknown'' [] trades = (es, Inr (ty, details))"
      by simp
    from trade_lines_classify [OF this] assms c Inr p show ?thesis
      by (simp add: render_v2_def box_of_def)
  qed
qed

text \<open>
  C9. For a transaction that is rendered, with \<open>trades\<close> the trades the parser found:
  the cards the first variant prints are those of the trades in order (all of them when
  no layout fails), and the card of a trade is typed \<open>BUY\<close> exactly when the mint of the
  trade's input token is \<open>SOL_MINT\<close>, and \<open>SELL\<close> otherwise; the trade lines of a box
  the second variant prints are typed \<open>Buy\<close> and \<open>Sell\<close> by the same test, one line per
  trade, in order.
\<close>

theorem trade_is_buy_iff_input_mint_is_sol:
  assumes "truthy (Some s)" and "parsedTransaction w s = Inr (Some tx)"
    and "meta tx = Some m" and "\<not> lamports_to_sol (fee m) < MIN_SOL_AMOUNT"
    and "parseTrades w tx = Inr trades"
  shows "map (\<lambda>c. (tokenMint (inputTokenData c), txType c))
             (cards (parseTransaction V1 w (Some s))) =
           map (\<lambda>t. (mint (inputToken t),
                      if mint (inputToken t) = SOL_MINT then ''BUY'' else ''SELL''))
             (take (length (cards (parseTransaction V1 w (Some s)))) trades) \<and>
         ((\<forall>d. cardLayoutError w d = None) \<longrightarrow>
            length (cards (parseTransaction V1 w (Some s))) = length trades) \<and>
         (\<forall>b \<in> set (boxes (parseTransaction V2 w (Some s))).
            trade_types (transactionDetails b) =
              map (\<lambda>t. if mint (inputToken t) = SOL_MINT then ''Buy'' else ''Sell'') trades)"
proof -
  have v1: "cards (parseTransaction V1 w (Some s)) = cards (render_v1 w s tx m)"
    using assms by (simp add: parseTransaction_def card_of_def)
  have v2: "boxes (parseTransaction V2 w (Some s)) = boxes (render_v2 w s tx m)"
    using assms by (simp add: parseTransaction_def box_of_def)
  from cards_render_v1 [OF assms(5), of s m] boxes_render_v2 [OF assms(5), of s m] v1 v2
  show ?thesis by simp
qed

theorem trade_is_buy_iff_input_mint_is_sol_witness:
  "truthy (Some (JStr ''sigA'')) \<and>
   parsedTransaction example_world (JStr ''sigA'') = Inr (Some swap_tx) \<and>
   meta swap_tx = Some \<lparr>fee = 2000000, err = False\<rparr> \<and>
   \<not> lamports_to_sol 2000000 < MIN_SOL_AMOUNT \<and>
   parseTrades example_world swap_tx = Inr [buy_trade, sell_trade] \<and>
   map (\<lambda>c. (tokenMint (inputTokenData c), txType c))
       (cards (parseTransaction V1 example_world (Some (JStr ''sigA'')))) =
     [(SOL_MINT, ''BUY''), (''TokenMint'', ''SELL'')] \<and>
   map (\<lambda>b. trade_types (transactionDetails b))
       (boxes (parseTransaction V2 example_world (Some (JStr ''sigA'')))) =
     [[''Buy'', ''Sell'']]"
proof -
  have a: "truthy (Some (JStr ''sigA''))"
    by simp
  have b: "parsedTransaction example_world (JStr ''sigA'') = Inr (Some swap_tx)"
    by (simp add: example_world_def)
  have c: "meta swap_tx = Some \<lparr>fee = 2000000, err = False\<rparr>"
    by (simp add: swap_tx_def)
  have d: "\<not> lamports_to_sol (fee \<lparr>fee = 2000000, err = False\<rparr>) < MIN_SOL_AMOUNT"
    by (simp add: lamports_below_threshold)
  have e: "parseTrades example_world swap_tx = Inr [buy_trade, sell_trade]"
    by (simp add: example_world_def swap_tx_def)
  have l: "\<forall>d. cardLayoutError example_world d = None"
    by (simp add: example_world_def)
  have n: "length (boxes (parseTransaction V2 example_world (Some (JStr ''sigA'')))) = 1"
    by code_simp
  have m: "mint (inputToken buy_trade) = SOL_MINT \<and> mint (inputToken sell_trade) = ''TokenMint''
           \<and> ''TokenMint'' \<noteq> SOL_MINT"
    by (simp add: buy_trade_def sell_trade_def SOL_MINT_def)
  note t = trade_is_buy_iff_input_mint_is_sol [OF a b c d e]
  from t l have len: "length (cards (parseTransaction V1 example_world (Some (JStr ''sigA'')))) = 2"
    by simp
  from t len m have v1:
    "map (\<lambda>c. (tokenMint (inputTokenData c), txType c))
         (cards (parseTransaction V1 example_world (Some (JStr ''sigA'')))) =
       [(SOL_MINT, ''BUY''), (''TokenMint'', ''SELL'')]"
    by simp
  obtain bx where bx: "boxes (parseTransaction V2 example_world (Some (JStr ''sigA''))) = [bx]"
    using n by (cases "boxes (parseTransaction V2 example_world (Some (JStr ''sigA'')))") auto
  from t bx m have v2:
    "map (\<lambda>b. trade_types (transactionDetails b))
         (boxes (parseTransaction V2 example_world (Some (JStr ''sigA'')))) = [[''Buy'', ''Sell'']]"
    by simp
  from a b c d e v1 v2 show ?thesis
    by simp
qed

section \<open>Reconnection\<close>

lemma timeouts_simps [simp]:
  "timeouts [] = []"
  "timeouts (e # es) = timeout_of e @ timeouts es"
  "timeouts (xs @ ys) = timeouts xs @ timeouts ys"
  by (simp_all add: timeouts_def)

lemma sockets_opened_simps [simp]:
  "sockets_opened [] = []"
  "sockets_opened (e # es) = socket_of e @ sockets_opened es"
  "sockets_opened (xs @ ys) = sockets_opened xs @ sockets_opened ys"
  by (simp_all add: sockets_opened_def)

lemma no_connection_effect_quiet:
  "\<not> list_ex connection_effect es \<Longrightarrow>
   timeouts es = [] \<and> sockets_opened es = [] \<and> \<not> list_ex process_exit es"
  by (induction es)
     (auto simp: timeout_of_def socket_of_def split: effect.splits elim: process_exit.elims)

lemma message_quiet:
  "timeouts (effects (on_message v pk wallet (track_callback v w) d r)) = [] \<and>
   sockets_opened (effects (on_message v pk wallet (track_callback v w) d r)) = [] \<and>
   \<not> list_ex process_exit (effects (on_message v pk wallet (track_callback v w) d r))"
  by (rule no_connection_effect_quiet [OF track_message_no_connection_effect])

lemma ws_step_message:
  "ws_step v w key wallet s (WsMessage d r) =
     s\<lparr>trace := trace s @ effects (on_message v (publicKeyOk w) wallet (track_callback v w) d r),
       dispatched :=
         dispatched s @ invoked (on_message v (publicKeyOk w) wallet (track_callback v w) d r)\<rparr>"
  by (simp add: ws_step_def Let_def)

lemma ws_step_reconnects:
  "\<exists>n. timeouts (trace (ws_step v w key wallet s ev)) =
          timeouts (trace s) @ replicate (if ev = WsClose then 1 else 0) 5000 \<and>
        sockets_opened (trace (ws_step v w key wallet s ev)) =
          sockets_opened (trace s) @ replicate n (HELIUS_WS_URL key) \<and>
        n + length (reconnectTimers (ws_step v w key wallet s ev)) =
          length (reconnectTimers s) + (if ev = WsClose then 1 else 0) \<and>
        list_ex process_exit (trace (ws_step v w key wallet s ev)) =
          list_ex process_exit (trace s)"
proof (cases ev)
  case WsOpen
  then show ?thesis
    by (simp add: ws_step_def on_open_def timeout_of_def socket_of_def)
next
  case (WsMessage d r)
  with message_quiet [of v "publicKeyOk w" wallet w d r] show ?thesis
    by (simp add: ws_step_message)
next
  case WsError
  then show ?thesis
    by (simp add: ws_step_def on_error_def timeout_of_def socket_of_def)
next
  case WsClose
  then show ?thesis
    by (simp add: ws_step_def on_close_def timeout_of_def socket_of_def)
next
  case TimerFires
  show ?thesis
  proof (cases "reconnectTimers s")
    case Nil
    with TimerFires show ?thesis
      by (simp add: ws_step_def on_timer_def)
  next
    case (Cons d ds)
    with TimerFires have
      "timeouts (trace (ws_step v w key wallet s ev)) = timeouts (trace s) \<and>
       sockets_opened (trace (ws_step v w key wallet s ev)) =
         sockets_opened (trace s) @ replicate 1 (HELIUS_WS_URL key) \<and>
       1 + length (reconnectTimers (ws_step v w key wallet s ev)) = length (reconnectTimers s) \<and>
       list_ex process_exit (trace (ws_step v w key wallet s ev)) =
         list_ex process_exit (trace s)"
      by (simp add: ws_step_def on_timer_def setupWebSocket_def timeout_of_def socket_of_def)
    with TimerFires show ?thesis
      by (intro exI [of _ 1]) simp
  qed
qed

lemma ws_run_reconnects:
  "\<exists>n. timeouts (trace (ws_run v w key wallet s evs)) =
          timeouts (trace s) @ replicate (count_list evs WsClose) 5000 \<and>
        sockets_opened (trace (ws_run v w key wallet s evs)) =
          sockets_opened (trace s) @ replicate n (HELIUS_WS_URL key) \<and>
        n + length (reconnectTimers (ws_run v w key wallet s evs)) =
          length (reconnectTimers s) + count_list evs WsClose \<and>
        list_ex process_exit (trace (ws_run v w key wallet s evs)) =
          list_ex process_exit (trace s)"
proof (induction evs arbitrary: s)
  case Nil
  show ?case by (intro exI [of _ 0]) simp
next
  case (Cons ev evs)
  let ?s = "ws_step v w key wallet s ev"
  obtain n1 where a:
    "timeouts (trace ?s) = timeouts (trace s) @ replicate (if ev = WsClose then 1 else 0) 5000"
    "sockets_opened (trace ?s) = sockets_opened (trace s) @ replicate n1 (HELIUS_WS_URL key)"
    "n1 + length (reconnectTimers ?s) = length (reconnectTimers s) + (if ev = WsClose then 1 else 0)"
    "list_ex process_exit (trace ?s) = list_ex process_exit (trace s)"
    using ws_step_reconnects [of v w key wallet s ev] by blast
  obtain n2 where b:
    "timeouts (trace (ws_run v w key wallet ?s evs)) =
       timeouts (trace ?s) @ replicate (count_list evs WsClose) 5000"
    "sockets_opened (trace (ws_run v w key wallet ?s evs)) =
       sockets_opened (trace ?s) @ replicate n2 (HELIUS_WS_URL key)"
    "n2 + length (reconnectTimers (ws_run v w key wallet ?s evs)) =
       length (reconnectTimers ?s) + count_list evs WsClose"
    "list_ex process_exit (trace (ws_run v w key wallet ?s evs)) = list_ex process_exit (trace ?s)"
    using Cons [of ?s] by blast
  show ?case
  proof (intro exI [of _ "n1 + n2"] conjI)
    show "timeouts (trace (ws_run v w key wallet s (ev # evs))) =
            timeouts (trace s) @ replicate (count_list (ev # evs) WsClose) 5000"
      using a(1) b(1) by (simp add: replicate_add [symmetric] del: replicate_add)
    show "sockets_opened (trace (ws_run v w key wallet s (ev # evs))) =
            sockets_opened (trace s) @ replicate (n1 + n2) (HELIUS_WS_URL key)"
      using a(2) b(2) by (simp add: replicate_add)
    show "n1 + n2 + length (reconnectTimers (ws_run v w key wallet s (ev # evs))) =
            length (reconnectTimers s) + count_list (ev # evs) WsClose"
      using a(3) b(3) by (cases "ev = WsClose") simp_all
    show "list_ex process_exit (trace (ws_run v w key wallet s (ev # evs))) =
            list_ex process_exit (trace s)"
      using a(4) b(4) by simp
  qed
qed

lemma ws_step_sockets:
  "sockets (ws_step v w key wallet s ev) + length (sockets_opened (trace s)) =
     sockets s + length (sockets_opened (trace (ws_step v w key wallet s ev)))"
proof (cases ev)
  case (WsMessage d r)
  with message_quiet [of v "publicKeyOk w" wallet w d r] show ?thesis
    by (simp add: ws_step_message)
qed (simp_all add: ws_step_def on_open_def on_error_def on_close_def on_timer_def
      setupWebSocket_def socket_of_def split: list.splits)

lemma ws_run_sockets:
  "sockets (ws_run v w key wallet s evs) + length (sockets_opened (trace s)) =
     sockets s + length (sockets_opened (trace (ws_run v w key wallet s evs)))"
proof (induction evs arbitrary: s)
  case Nil
  show ?case by simp
next
  case (Cons ev evs)
  from Cons [of "ws_step v w key wallet s ev"] ws_step_sockets [of v w key wallet s ev]
  show ?case by simp
qed

lemma ws_run_append:
  "ws_run v w key wallet s (xs @ ys) = ws_run v w key wallet (ws_run v w key wallet s xs) ys"
  by (induction xs arbitrary: s) simp_all

lemma ws_run_messages:
  "readyState (ws_run v w key wallet s (map (\<lambda>(d, r). WsMessage d r) msgs)) = readyState s \<and>
   reconnectTimers (ws_run v w key wallet s (map (\<lambda>(d, r). WsMessage d r) msgs)) =
     reconnectTimers s \<and>
   sockets_opened (trace (ws_run v w key wallet s (map (\<lambda>(d, r). WsMessage d r) msgs))) =
     sockets_opened (trace s) \<and>
   timeouts (trace (ws_run v w key wallet s (map (\<lambda>(d, r). WsMessage d r) msgs))) =
     timeouts (trace s)"
proof (induction msgs arbitrary: s)
  case Nil
  show ?case by simp
next
  case (Cons m msgs)
  obtain d r where m: "m = (d, r)" by (cases m)
  from Cons [of "ws_step v w key wallet s (WsMessage d r)"] m
    message_quiet [of v "publicKeyOk w" wallet w d r]
  show ?case
    by (simp add: ws_step_message)
qed

lemma close_timer_open:
  assumes "reconnectTimers s = []"
  shows "trace (ws_run v w key wallet s [WsClose]) =
           trace s @ [ConsoleLog WebSocketDisconnected, SetTimeout 5000] \<and>
         reconnectTimers (ws_run v w key wallet s [WsClose]) = [5000] \<and>
         readyState (ws_run v w key wallet s [WsClose]) = CLOSED \<and>
         trace (ws_run v w key wallet s [WsClose, TimerFires]) =
           trace s @ [ConsoleLog WebSocketDisconnected, SetTimeout 5000,
                      NewWebSocket (HELIUS_WS_URL key)] \<and>
         reconnectTimers (ws_run v w key wallet s [WsClose, TimerFires]) = [] \<and>
         readyState (ws_run v w key wallet s [WsClose, TimerFires]) = CONNECTING \<and>
         trace (ws_run v w key wallet s [WsClose, TimerFires, WsOpen]) =
           trace s @ [ConsoleLog WebSocketDisconnected, SetTimeout 5000,
                      NewWebSocket (HELIUS_WS_URL key), ConsoleLog WebSocketConnected,
                      WsSendAccountSubscribe wallet, SetInterval 30000] \<and>
         readyState (ws_run v w key wallet s [WsClose, TimerFires, WsOpen]) = OPEN"
  using assms
  by (simp add: ws_step_def on_close_def on_timer_def on_open_def setupWebSocket_def)

lemma session_cycles:
  "sockets_opened (trace (ws_run v w key wallet (trackWallet key)
       (concat (map session_cycle mss)))) = replicate (Suc (length mss)) (HELIUS_WS_URL key) \<and>
   timeouts (trace (ws_run v w key wallet (trackWallet key) (concat (map session_cycle mss)))) =
     replicate (length mss) 5000 \<and>
   reconnectTimers (ws_run v w key wallet (trackWallet key) (concat (map session_cycle mss))) = [] \<and>
   readyState (ws_run v w key wallet (trackWallet key) (concat (map session_cycle mss))) =
     CONNECTING"
proof (induction mss rule: rev_induct)
  case Nil
  show ?case
    by (simp add: trackWallet_def setupWebSocket_def no_session_def socket_of_def
        timeout_of_def)
next
  case (snoc msgs mss)
  let ?s0 = "ws_run v w key wallet (trackWallet key) (concat (map session_cycle mss))"
  let ?s1 = "ws_step v w key wallet ?s0 WsOpen"
  let ?s2 = "ws_run v w key wallet ?s1 (map (\<lambda>(d, r). WsMessage d r) msgs)"
  have o: "reconnectTimers ?s1 = reconnectTimers ?s0 \<and>
           sockets_opened (trace ?s1) = sockets_opened (trace ?s0) \<and>
           timeouts (trace ?s1) = timeouts (trace ?s0)"
    by (simp add: ws_step_def on_open_def socket_of_def timeout_of_def)
  note m = ws_run_messages [of v w key wallet ?s1 msgs]
  have r: "ws_run v w key wallet (trackWallet key) (concat (map session_cycle (mss @ [msgs]))) =
             ws_run v w key wallet ?s2 [WsClose, TimerFires]"
    by (simp add: session_cycle_def ws_run_append)
  from snoc o m have t: "reconnectTimers ?s2 = []"
    by simp
  from close_timer_open [OF t, of v w key wallet] snoc o m show ?case
    by (simp only: r) (simp add: socket_of_def timeout_of_def replicate_append_same)
qed

lemma concat_replicate_Suc_right:
  "concat (replicate (Suc n) xs) = concat (replicate n xs) @ xs"
  by (induction n) simp_all

lemma plain_cycles:
  "trace (ws_run v w key wallet (trackWallet key)
       (concat (replicate n [WsOpen, WsClose, TimerFires]))) =
     NewWebSocket (HELIUS_WS_URL key) #
     concat (replicate n
       [ConsoleLog WebSocketConnected, WsSendAccountSubscribe wallet, SetInterval 30000,
        ConsoleLog WebSocketDisconnected, SetTimeout 5000, NewWebSocket (HELIUS_WS_URL key)]) \<and>
   reconnectTimers (ws_run v w key wallet (trackWallet key)
       (concat (replicate n [WsOpen, WsClose, TimerFires]))) = []"
proof (induction n)
  case 0
  show ?case by (simp add: trackWallet_def setupWebSocket_def no_session_def)
next
  case (Suc n)
  let ?s = "ws_run v w key wallet (trackWallet key) (concat (replicate n [WsOpen, WsClose, TimerFires]))"
  from Suc show ?case
    by (simp only: concat_replicate_Suc_right ws_run_append)
       (simp add: ws_step_def on_close_def on_timer_def on_open_def setupWebSocket_def)
qed

text \<open>
  C4. A close event makes the session reconnect exactly once, after a constant delay,
  and this never stops. From a session with no timer pending, the close handler logs
  and sets one timer, of 5000 milliseconds (there is no counter and no backoff); when
  that timer fires one new socket is made, to the same address; when the new socket
  opens the subscription is sent again. In every run of the session, over any events
  and from any state: each timer set is of 5000 milliseconds and one is set per close
  event; every socket made goes to the same address; the sockets made and the timers
  still pending together number one per close event; the count of sockets the session
  keeps grows with the sockets made; and no event makes the process exit. After any number of lives of the connection, whatever messages arrived in each,
  the session has made one socket more than it saw closes, has no timer pending and is
  connecting again; without messages its actions are the opening of the first socket
  followed, once per life, by the same six actions.
\<close>

theorem close_schedules_one_reconnect_without_bound:
  "(reconnectTimers s = [] \<longrightarrow>
      trace (ws_run v w key wallet s [WsClose]) =
        trace s @ [ConsoleLog WebSocketDisconnected, SetTimeout 5000] \<and>
      reconnectTimers (ws_run v w key wallet s [WsClose]) = [5000] \<and>
      readyState (ws_run v w key wallet s [WsClose]) = CLOSED \<and>
      trace (ws_run v w key wallet s [WsClose, TimerFires]) =
        trace s @ [ConsoleLog WebSocketDisconnected, SetTimeout 5000,
                   NewWebSocket (HELIUS_WS_URL key)] \<and>
      reconnectTimers (ws_run v w key wallet s [WsClose, TimerFires]) = [] \<and>
      readyState (ws_run v w key wallet s [WsClose, TimerFires]) = CONNECTING \<and>
      trace (ws_run v w key wallet s [WsClose, TimerFires, WsOpen]) =
        trace s @ [ConsoleLog WebSocketDisconnected, SetTimeout 5000,
                   NewWebSocket (HELIUS_WS_URL key), ConsoleLog WebSocketConnected,
                   WsSendAccountSubscribe wallet, SetInterval 30000] \<and>
      readyState (ws_run v w key wallet s [WsClose, TimerFires, WsOpen]) = OPEN) \<and>
   (\<exists>n. timeouts (trace (ws_run v w key wallet s evs)) =
           timeouts (trace s) @ replicate (count_list evs WsClose) 5000 \<and>
         sockets_opened (trace (ws_run v w key wallet s evs)) =
           sockets_opened (trace s) @ replicate n (HELIUS_WS_URL key) \<and>
         n + length (reconnectTimers (ws_run v w key wallet s evs)) =
           length (reconnectTimers s) + count_list evs WsClose \<and>
         list_ex process_exit (trace (ws_run v w key wallet s evs)) =
           list_ex process_exit (trace s)) \<and>
   sockets (ws_run v w key wallet s evs) + length (sockets_opened (trace s)) =
     sockets s + length (sockets_opened (trace (ws_run v w key wallet s evs))) \<and>
   sockets_opened (trace (ws_run v w key wallet (trackWallet key)
       (concat (map session_cycle mss)))) = replicate (Suc (length mss)) (HELIUS_WS_URL key) \<and>
   timeouts (trace (ws_run v w key wallet (trackWallet key) (concat (map session_cycle mss)))) =
     replicate (length mss) 5000 \<and>
   reconnectTimers (ws_run v w key wallet (trackWallet key) (concat (map session_cycle mss))) = [] \<and>
   readyState (ws_run v w key wallet (trackWallet key) (concat (map session_cycle mss))) =
     CONNECTING \<and>
   trace (ws_run v w key wallet (trackWallet key)
       (concat (replicate k [WsOpen, WsClose, TimerFires]))) =
     NewWebSocket (HELIUS_WS_URL key) #
     concat (replicate k
       [ConsoleLog WebSocketConnected, WsSendAccountSubscribe wallet, SetInterval 30000,
        ConsoleLog WebSocketDisconnected, SetTimeout 5000, NewWebSocket (HELIUS_WS_URL key)])"
  using close_timer_open [of s v w key wallet] ws_run_reconnects [of v w key wallet s evs]
    ws_run_sockets [of v w key wallet s evs]
    session_cycles [of v w key wallet mss] plain_cycles [of v w key wallet k]
  by blast

theorem close_schedules_one_reconnect_without_bound_witness:
  "reconnectTimers (on_open ''wallet'' (trackWallet (Some ''key''))) = [] \<and>
   readyState (on_open ''wallet'' (trackWallet (Some ''key''))) = OPEN \<and>
   trace (ws_run V1 example_world (Some ''key'') ''wallet''
            (on_open ''wallet'' (trackWallet (Some ''key''))) [WsClose, TimerFires, WsOpen]) =
     [NewWebSocket ''wss://mainnet.helius-rpc.com/?api-key=key'',
      ConsoleLog WebSocketConnected, WsSendAccountSubscribe ''wallet'', SetInterval 30000,
      ConsoleLog WebSocketDisconnected, SetTimeout 5000,
      NewWebSocket ''wss://mainnet.helius-rpc.com/?api-key=key'',
      ConsoleLog WebSocketConnected, WsSendAccountSubscribe ''wallet'', SetInterval 30000] \<and>
   sockets_opened
     (trace (ws_run V1 example_world (Some ''key'') ''wallet'' (trackWallet (Some ''key''))
        (concat (map session_cycle
           [[], [(JsonText account_notification, signatures_response [signature_entry ''sigB''])],
            [(Unparseable, NetworkError)]])))) =
     [''wss://mainnet.helius-rpc.com/?api-key=key'', ''wss://mainnet.helius-rpc.com/?api-key=key'',
      ''wss://mainnet.helius-rpc.com/?api-key=key'', ''wss://mainnet.helius-rpc.com/?api-key=key''] \<and>
   timeouts
     (trace (ws_run V1 example_world (Some ''key'') ''wallet'' (trackWallet (Some ''key''))
        (concat (map session_cycle
           [[], [(JsonText account_notification, signatures_response [signature_entry ''sigB''])],
            [(Unparseable, NetworkError)]])))) = [5000, 5000, 5000]"
proof -
  let ?s = "on_open ''wallet'' (trackWallet (Some ''key''))"
  have a: "reconnectTimers ?s = [] \<and> readyState ?s = OPEN"
    by (simp add: on_open_def trackWallet_def setupWebSocket_def no_session_def)
  have b: "trace ?s =
             [NewWebSocket ''wss://mainnet.helius-rpc.com/?api-key=key'',
              ConsoleLog WebSocketConnected, WsSendAccountSubscribe ''wallet'', SetInterval 30000]"
    by (simp add: on_open_def trackWallet_def setupWebSocket_def no_session_def
        HELIUS_WS_URL_def interpolate_def)
  have u: "HELIUS_WS_URL (Some ''key'') = ''wss://mainnet.helius-rpc.com/?api-key=key''"
    by (simp add: HELIUS_WS_URL_def interpolate_def)
  note t = close_schedules_one_reconnect_without_bound
             [where v = V1 and w = example_world and key = "Some ''key''" and wallet = "''wallet''"
                and s = ?s and evs = "[]" and k = 0
                and mss = "[[], [(JsonText account_notification,
                                  signatures_response [signature_entry ''sigB''])],
                            [(Unparseable, NetworkError)]]"]
  from t a b u show ?thesis
    by (simp add: numeral_3_eq_3)
qed

section \<open>Start of the module\<close>

text \<open>
  The second variant: without a key, or with an empty one, the module prints the
  diagnostic and exits with status 1 before it creates the connection; with a non-empty
  key it goes on.
\<close>

lemma second_variant_validates_api_key:
  "module_init V2 None main = [ConsoleError MissingApiKeyBox, ProcessExit 1] \<and>
   module_init V2 (Some []) main = [ConsoleError MissingApiKeyBox, ProcessExit 1] \<and>
   (k \<noteq> [] \<longrightarrow> module_init V2 (Some k) main = NewConnection (HELIUS_RPC_URL (Some k)) # main)"
  by (simp add: module_init_def)

text \<open>
  C3. The first variant has no validation: started without the key it builds its URLs
  with the text \<open>undefined\<close>, creates the connection and goes on to open the socket; it
  never exits. The second variant, at the same input, prints the diagnostic and exits
  with status 1.
\<close>

theorem first_variant_starts_without_api_key:
  "module_init V1 None [NewWebSocket (HELIUS_WS_URL None)] =
     [NewConnection ''https://mainnet.helius-rpc.com/?api-key=undefined'',
      NewWebSocket ''wss://mainnet.helius-rpc.com/?api-key=undefined''] \<and>
   \<not> list_ex process_exit (module_init V1 None [NewWebSocket (HELIUS_WS_URL None)]) \<and>
   module_init V2 None [NewWebSocket (HELIUS_WS_URL None)] =
     [ConsoleError MissingApiKeyBox, ProcessExit 1]"
  by (simp add: module_init_def HELIUS_RPC_URL_def HELIUS_WS_URL_def interpolate_def)

end
